theory Spec2Isabelle
  imports Main "HOL-Library.AList"
begin

section \<open>Image build: request marshalling and the build event stream\<close>

text \<open>
  A shallow embedding of \<^verbatim>\<open>BuildMixin.build\<close> (podman/domain/images_build.py).
  Python exceptions are values of the type \<open>exc\<close>; the collaborators that are not part of
  the file (the HTTP client, \<^verbatim>\<open>json.loads\<close>, the image lookup, the helpers of
  \<^verbatim>\<open>podman.api\<close>) are fields of an environment record.
\<close>

subsection \<open>Decoded JSON values and the Python operators used on them\<close>

datatype json =
    JNull
  | JBool bool
  | JNum int
  | JStr string
  | JArr "json list"
  | JObj "(string \<times> json) list"

text \<open>\<^verbatim>\<open>needle in haystack\<close> on two Python strings: a contiguous substring.\<close>

fun substring :: "string \<Rightarrow> string \<Rightarrow> bool" where
  "substring needle [] = (needle = [])"
| "substring needle (c # cs) =
     (if take (length needle) (c # cs) = needle then True else substring needle cs)"

text \<open>The tee of \<^verbatim>\<open>itertools.tee(response.iter_lines())\<close>: one shared source that is read
  from the front, and for each of the two views the items the other view has already pulled.\<close>

record 'a tee =
  source :: "'a list"
  report_buf :: "'a list"
  stream_buf :: "'a list"

definition tee_of :: "'a list \<Rightarrow> 'a tee" where
  "tee_of xs = \<lparr>source = xs, report_buf = [], stream_buf = []\<rparr>"

text \<open>\<^verbatim>\<open>next(stream)\<close>: \<open>None\<close> is StopIteration.\<close>

definition next_stream :: "'a tee \<Rightarrow> ('a \<times> 'a tee) option" where
  "next_stream t =
     (case stream_buf t of
        x # q \<Rightarrow> Some (x, t\<lparr>stream_buf := q\<rparr>)
      | [] \<Rightarrow>
         (case source t of
            [] \<Rightarrow> None
          | x # s \<Rightarrow> Some (x, t\<lparr>source := s, report_buf := report_buf t @ [x]\<rparr>)))"

text \<open>\<^verbatim>\<open>next(report_stream)\<close>.\<close>

definition next_report :: "'a tee \<Rightarrow> ('a \<times> 'a tee) option" where
  "next_report t =
     (case report_buf t of
        x # q \<Rightarrow> Some (x, t\<lparr>report_buf := q\<rparr>)
      | [] \<Rightarrow>
         (case source t of
            [] \<Rightarrow> None
          | x # s \<Rightarrow> Some (x, t\<lparr>source := s, stream_buf := stream_buf t @ [x]\<rparr>)))"

datatype message = Msg_json json | Msg_bytes string | Msg_str string

datatype exc =
    TypeError string
  | PodmanError string
  | ValueError string
  | UnboundLocalError string
  | AttributeError string
  | OverflowError string
  | JSONDecodeError
  | UnicodeDecodeError
  | BuildError message "string tee"
  | Foreign string

text \<open>\<^verbatim>\<open>key in result\<close> for a decoded value \<open>result\<close>.\<close>

fun py_in :: "string \<Rightarrow> json \<Rightarrow> exc + bool" where
  "py_in k (JObj kvs) = Inr (map_of kvs k \<noteq> None)"
| "py_in k (JArr vs) = Inr (List.member vs (JStr k))"
| "py_in k (JStr s) = Inr (substring k s)"
| "py_in k JNull = Inl (TypeError ''argument of type NoneType is not iterable'')"
| "py_in k (JBool b) = Inl (TypeError ''argument of type bool is not iterable'')"
| "py_in k (JNum n) = Inl (TypeError ''argument of type int is not iterable'')"

text \<open>\<^verbatim>\<open>result[key]\<close> with a string key, evaluated only after \<^verbatim>\<open>key in result\<close> held.\<close>

fun py_getitem :: "json \<Rightarrow> string \<Rightarrow> exc + json" where
  "py_getitem (JObj kvs) k =
     (case map_of kvs k of
        Some v \<Rightarrow> Inr v
      | None \<Rightarrow> Inl (Foreign ''KeyError''))"
| "py_getitem (JArr vs) k = Inl (TypeError ''list indices must be integers or slices, not str'')"
| "py_getitem (JStr s) k = Inl (TypeError ''string indices must be integers'')"
| "py_getitem v k = Inl (TypeError ''object is not subscriptable'')"

subsection \<open>The success marker\<close>

definition hexdigit :: "char \<Rightarrow> bool" where
  "hexdigit c = (c \<in> set ''0123456789abcdef'')"

text \<open>
  \<^verbatim>\<open>re.compile(r"(^[0-9a-f]+)\n$").match(s)\<close>, returning group 1. The greedy run of hex digits
  must be followed by a newline, and then \<^verbatim>\<open>$\<close> must hold: without the MULTILINE flag Python's
  \<^verbatim>\<open>$\<close> holds at the end of the string and also just before a newline that is the last
  character of the string.
\<close>

definition marker_match :: "string \<Rightarrow> string option" where
  "marker_match s =
     (let h = takeWhile hexdigit s; rest = dropWhile hexdigit s
      in if h \<noteq> [] \<and> (rest = ''\<newline>'' \<or> rest = ''\<newline>\<newline>'') then Some h else None)"

text \<open>\<^verbatim>\<open>marker.match(v)\<close> on a decoded value: anything but a string is a TypeError.\<close>

fun marker_match_value :: "json \<Rightarrow> exc + string option" where
  "marker_match_value (JStr s) = Inr (marker_match s)"
| "marker_match_value v = Inl (TypeError ''expected string or bytes-like object'')"

subsection \<open>Scanning the event stream\<close>

text \<open>The body of the \<^verbatim>\<open>for line in stream\<close> loop on one decoded line.\<close>

datatype line_outcome =
    Error_event json
  | Carry_on "string option"
  | Fault exc

definition scan_line :: "json \<Rightarrow> string option \<Rightarrow> line_outcome" where
  "scan_line result image_id =
     (case py_in ''error'' result of
        Inl e \<Rightarrow> Fault e
      | Inr True \<Rightarrow>
         (case py_getitem result ''error'' of
            Inl e \<Rightarrow> Fault e
          | Inr m \<Rightarrow> Error_event m)
      | Inr False \<Rightarrow>
         (case py_in ''stream'' result of
            Inl e \<Rightarrow> Fault e
          | Inr False \<Rightarrow> Carry_on image_id
          | Inr True \<Rightarrow>
             (case py_getitem result ''stream'' of
                Inl e \<Rightarrow> Fault e
              | Inr v \<Rightarrow>
                 (case marker_match_value v of
                    Inl e \<Rightarrow> Fault e
                  | Inr None \<Rightarrow> Carry_on image_id
                  | Inr (Some g) \<Rightarrow> Carry_on (Some g)))))"

lemma next_stream_smaller:
  "next_stream t = Some (x, t') \<Longrightarrow>
     length (source t') + length (stream_buf t') < length (source t) + length (stream_buf t)"
  by (auto simp: next_stream_def split: list.splits)

lemma next_report_smaller:
  "next_report t = Some (x, t') \<Longrightarrow>
     length (source t') + length (report_buf t') < length (source t) + length (report_buf t)"
  by (auto simp: next_report_def split: list.splits)

text \<open>The loop: the result is the exception that left it, or the values of
  \<^verbatim>\<open>image_id\<close>, \<^verbatim>\<open>unknown\<close> and the tee at StopIteration. \<open>loads\<close> is \<^verbatim>\<open>json.loads\<close> on
  the bytes of a line: the decoded value, or the exception it raises (JSONDecodeError for
  text that is not valid JSON, UnicodeDecodeError for bytes that are not valid UTF-8).\<close>

function scan ::
  "(string \<Rightarrow> exc + json) \<Rightarrow> string tee \<Rightarrow> string option \<Rightarrow> string option
     \<Rightarrow> exc + (string option \<times> string option \<times> string tee)" where
  "scan loads t image_id unknown =
     (case next_stream t of
        None \<Rightarrow> Inr (image_id, unknown, t)
      | Some (line, t') \<Rightarrow>
         (case loads line of
            Inl e \<Rightarrow> Inl e
          | Inr result \<Rightarrow>
             (case scan_line result image_id of
                Fault e \<Rightarrow> Inl e
              | Error_event m \<Rightarrow> Inl (BuildError (Msg_json m) t')
              | Carry_on image_id' \<Rightarrow> scan loads t' image_id' (Some line))))"
  by pat_completeness auto
termination
  by (relation "measure (\<lambda>(loads, t, i, u). length (source t) + length (stream_buf t))")
     (auto dest: next_stream_smaller)

text \<open>Draining the replay view: \<^verbatim>\<open>list(report_stream)\<close>.\<close>

function drain_report :: "'a tee \<Rightarrow> 'a list" where
  "drain_report t =
     (case next_report t of
        None \<Rightarrow> []
      | Some (x, t') \<Rightarrow> x # drain_report t')"
  by pat_completeness auto
termination
  by (relation "measure (\<lambda>t. length (source t) + length (report_buf t))")
     (auto dest: next_report_smaller)

declare scan.simps [simp del] drain_report.simps [simp del]

text \<open>After the loop: \<^verbatim>\<open>BuildError(unknown or "Unknown", report_stream)\<close>. The empty
  byte string is falsy, as \<^verbatim>\<open>None\<close> is.\<close>

definition no_marker :: "string option \<Rightarrow> string tee \<Rightarrow> exc" where
  "no_marker unknown t =
     BuildError (case unknown of
                   None \<Rightarrow> Msg_str ''Unknown''
                 | Some l \<Rightarrow> if l \<noteq> [] then Msg_bytes l else Msg_str ''Unknown'') t"

text \<open>Lines 252 to 268: the scan, then \<^verbatim>\<open>self.get(image_id)\<close> when \<^verbatim>\<open>image_id\<close> is truthy. The
  second component lists the identifiers handed to the image lookup.\<close>

definition build_outcome ::
  "(string \<Rightarrow> exc + json) \<Rightarrow> (string \<Rightarrow> exc + 'img) \<Rightarrow> string list
     \<Rightarrow> (exc + ('img \<times> string tee)) \<times> string list" where
  "build_outcome loads images_get lines =
     (case scan loads (tee_of lines) None None of
        Inl e \<Rightarrow> (Inl e, [])
      | Inr (image_id, unknown, t) \<Rightarrow>
         (case image_id of
            None \<Rightarrow> (Inl (no_marker unknown t), [])
          | Some i \<Rightarrow>
             if i \<noteq> [] then
               (case images_get i of Inl e \<Rightarrow> (Inl e, [i]) | Inr img \<Rightarrow> (Inr (img, t), [i]))
             else (Inl (no_marker unknown t), [])))"

subsection \<open>Events as the daemon sends them\<close>

text \<open>The text of the \<^verbatim>\<open>stream\<close> field of a line, when the line decodes to an object that has
  one and it is a string.\<close>

definition stream_text :: "(string \<Rightarrow> exc + json) \<Rightarrow> string \<Rightarrow> string option" where
  "stream_text loads l =
     (case loads l of
        Inr (JObj kvs) \<Rightarrow> (case map_of kvs ''stream'' of Some (JStr s) \<Rightarrow> Some s | _ \<Rightarrow> None)
      | _ \<Rightarrow> None)"

text \<open>A line that decodes to an object with no \<^verbatim>\<open>error\<close> field and whose \<^verbatim>\<open>stream\<close> field,
  if there is one, is a string.\<close>

definition plain_event :: "(string \<Rightarrow> exc + json) \<Rightarrow> string \<Rightarrow> bool" where
  "plain_event loads l =
     (case loads l of
        Inr (JObj kvs) \<Rightarrow>
          map_of kvs ''error'' = None \<and>
          (case map_of kvs ''stream'' of None \<Rightarrow> True | Some (JStr s) \<Rightarrow> True | Some _ \<Rightarrow> False)
      | _ \<Rightarrow> False)"

text \<open>The identifier a line announces, and the identifier left after a run of lines.\<close>

definition marker_of :: "(string \<Rightarrow> exc + json) \<Rightarrow> string \<Rightarrow> string option" where
  "marker_of loads l = (case stream_text loads l of None \<Rightarrow> None | Some s \<Rightarrow> marker_match s)"

fun last_marker :: "(string \<Rightarrow> exc + json) \<Rightarrow> string list \<Rightarrow> string option \<Rightarrow> string option" where
  "last_marker loads [] acc = acc"
| "last_marker loads (l # ls) acc =
     last_marker loads ls (case marker_of loads l of None \<Rightarrow> acc | Some g \<Rightarrow> Some g)"

subsection \<open>Arguments and query parameters\<close>

text \<open>A keyword argument whose default is not \<^verbatim>\<open>None\<close> is either left out by the caller or
  given (possibly as \<^verbatim>\<open>None\<close>).\<close>

datatype 'a arg = Omitted | Given 'a

definition arg_or :: "'a arg \<Rightarrow> 'a \<Rightarrow> 'a" where
  "arg_or a d = (case a of Omitted \<Rightarrow> d | Given v \<Rightarrow> v)"

datatype pval =
    PNone
  | PBool bool
  | PInt int
  | PStr string
  | PDumps json
  | PList "string list"

type_synonym params = "(string \<times> pval) list"

datatype mode_val = Mode_scalar string | Mode_list "string list"

text \<open>The value of one entry of \<^verbatim>\<open>volumes\<close>: \<open>binddir\<close> is \<^verbatim>\<open>target.get('bind')\<close>, \<open>mode\<close> is
  the entry under \<^verbatim>\<open>'mode'\<close> when there is one.\<close>

record volume_target =
  binddir :: "string option"
  mode :: "mode_val option"

text \<open>
  The file object of a call, positioned at its start, with its content: a text file object
  (\<^verbatim>\<open>io.StringIO\<close>, as the tests pass), an \<^verbatim>\<open>io.BytesIO\<close> or a \<^verbatim>\<open>pathlib.Path\<close> (the two types
  the signature declares). The directory path of a call: a \<^verbatim>\<open>pathlib.Path\<close> (as the signature
  declares) or a plain string (as the docstring says and one test passes).
\<close>

datatype fileobj = Text_file string | Bytes_file string | Path_file string

datatype pathval = Path_obj string | Path_str string

record build_args =
  path :: "pathval option"
  fileobj :: "fileobj option"
  tag :: "string option"
  quiet :: "bool option"
  remote :: "string option"
  nocache :: "bool option"
  rm :: "bool option"
  timeout :: "int option"
  custom_context :: "bool option"
  pull :: "bool option"
  forcerm :: "bool option"
  dockerfile :: "string option arg"
  buildargs :: "(string \<times> string) list option"
  container_limits :: "(string \<times> pval) list option"
  shmsize :: "int option"
  labels :: "(string \<times> string) list option"
  cache_from :: "string list option"
  target :: "string option"
  network_mode :: "string option"
  squash :: "bool option"
  extra_hosts :: "(string \<times> string) list option"
  platform :: "string option"
  http_proxy :: "bool option"
  layers :: "bool option arg"
  output' :: "string option"
  outputformat :: "string option arg"
  volumes :: "(string \<times> volume_target) list option"
  kw_gzip :: "bool option"
  kw_encoding :: "string option"

text \<open>The fields \<open>kw_gzip\<close> and \<open>kw_encoding\<close> are the entries \<^verbatim>\<open>gzip\<close> and \<^verbatim>\<open>encoding\<close> of
  \<^verbatim>\<open>**kwargs\<close>; every other extra keyword is ignored by the code.\<close>

definition of_str :: "string option \<Rightarrow> pval" where
  "of_str v = (case v of None \<Rightarrow> PNone | Some s \<Rightarrow> PStr s)"

definition of_bool :: "bool option \<Rightarrow> pval" where
  "of_bool v = (case v of None \<Rightarrow> PNone | Some b \<Rightarrow> PBool b)"

definition of_int :: "int option \<Rightarrow> pval" where
  "of_int v = (case v of None \<Rightarrow> PNone | Some n \<Rightarrow> PInt n)"

definition outputformat_default :: string where
  "outputformat_default = ''application/vnd.oci.image.manifest.v1+json''"

text \<open>Lines 148 to 166, with the defaults of the signature filled in.\<close>

definition initial_params :: "string \<Rightarrow> build_args \<Rightarrow> params" where
  "initial_params default_dockerfile a =
     [(''dockerfile'', of_str (arg_or (dockerfile a) (Some default_dockerfile))),
      (''forcerm'', of_bool (forcerm a)),
      (''httpproxy'', of_bool (http_proxy a)),
      (''networkmode'', of_str (network_mode a)),
      (''nocache'', of_bool (nocache a)),
      (''platform'', of_str (platform a)),
      (''pull'', of_bool (pull a)),
      (''q'', of_bool (quiet a)),
      (''remote'', of_str (remote a)),
      (''rm'', of_bool (rm a)),
      (''shmsize'', of_int (shmsize a)),
      (''squash'', of_bool (squash a)),
      (''t'', of_str (tag a)),
      (''target'', of_str (target a)),
      (''layers'', of_bool (arg_or (layers a) (Some True))),
      (''output'', of_str (output' a)),
      (''outputformat'', of_str (arg_or (outputformat a) (Some outputformat_default)))]"

text \<open>\<^verbatim>\<open>if d: params[k] = json.dumps(d)\<close> for a dictionary of strings and for a list of
  strings; the serialisation itself is left symbolic (\<open>PDumps\<close>).\<close>

definition dumps_dict :: "string \<Rightarrow> (string \<times> string) list option \<Rightarrow> params \<Rightarrow> params" where
  "dumps_dict k d ps =
     (case d of
        None \<Rightarrow> ps
      | Some [] \<Rightarrow> ps
      | Some (x # xs) \<Rightarrow> AList.update k (PDumps (JObj (map (\<lambda>(n, v). (n, JStr v)) (x # xs)))) ps)"

definition dumps_list :: "string \<Rightarrow> string list option \<Rightarrow> params \<Rightarrow> params" where
  "dumps_list k d ps =
     (case d of
        None \<Rightarrow> ps
      | Some [] \<Rightarrow> ps
      | Some (x # xs) \<Rightarrow> AList.update k (PDumps (JArr (map JStr (x # xs)))) ps)"

text \<open>\<^verbatim>\<open>container_limits.get(k)\<close>.\<close>

definition limit :: "(string \<times> pval) list \<Rightarrow> string \<Rightarrow> pval" where
  "limit cl k = (case map_of cl k of None \<Rightarrow> PNone | Some v \<Rightarrow> v)"

definition limit_params :: "(string \<times> pval) list option \<Rightarrow> params \<Rightarrow> params" where
  "limit_params d ps =
     (case d of
        None \<Rightarrow> ps
      | Some [] \<Rightarrow> ps
      | Some (x # xs) \<Rightarrow>
         (let cl = x # xs in
          AList.update ''memswap'' (limit cl ''memswap'')
           (AList.update ''memory'' (limit cl ''memory'')
            (AList.update ''cpushares'' (limit cl ''cpushares'')
             (AList.update ''cpusetcpus'' (limit cl ''cpusetcpus'')
              (AList.update ''cpuquota'' (limit cl ''cpuquota'')
               (AList.update ''cpuperiod'' (limit cl ''cpuperiod'') ps)))))))"

text \<open>The six parameters written from \<^verbatim>\<open>container_limits\<close>.\<close>

definition limit_keys :: "string list" where
  "limit_keys = [''cpuperiod'', ''cpuquota'', ''cpusetcpus'', ''cpushares'', ''memory'', ''memswap'']"

text \<open>\<^verbatim>\<open>sep.join(xs)\<close>.\<close>

fun join :: "string \<Rightarrow> string list \<Rightarrow> string" where
  "join sep [] = []"
| "join sep [x] = x"
| "join sep (x # y # ys) = x @ sep @ join sep (y # ys)"

text \<open>The loop of lines 188 to 196 over \<^verbatim>\<open>volumes.items()\<close>; \<open>acc\<close> is \<^verbatim>\<open>params["volume"]\<close>.\<close>

fun volume_entries :: "(string \<times> volume_target) list \<Rightarrow> string list \<Rightarrow> exc + string list" where
  "volume_entries [] acc = Inr acc"
| "volume_entries ((hostdir, target') # rest) acc =
     (case binddir target' of
        None \<Rightarrow> Inl (ValueError (''volume '' @ hostdir @ '' 'bind' value not defined''))
      | Some b \<Rightarrow>
         (case (case mode target' of None \<Rightarrow> Mode_list [] | Some m \<Rightarrow> m) of
            Mode_scalar s \<Rightarrow>
              Inl (ValueError (''volume '' @ hostdir @ '' 'mode' value should be a list''))
          | Mode_list ms \<Rightarrow>
              volume_entries rest (acc @ [hostdir @ '':'' @ b @ '':'' @ join '','' ms])))"

definition volume_params :: "(string \<times> volume_target) list option \<Rightarrow> params \<Rightarrow> exc + params" where
  "volume_params d ps =
     (case d of
        None \<Rightarrow> Inr ps
      | Some [] \<Rightarrow> Inr ps
      | Some (x # xs) \<Rightarrow>
         (case volume_entries (x # xs) [] of
            Inl e \<Rightarrow> Inl e
          | Inr vs \<Rightarrow> Inr (AList.update ''volume'' (PList vs) ps)))"

text \<open>The specification's side of the volume rules: an entry is well-formed when it has a
  bind path and its mode, if given, is a sequence; a well-formed entry is sent as host path,
  bind path and the mode flags joined by commas, separated by colons; a malformed entry is
  reported under its host path.\<close>

definition entry_ok :: "volume_target \<Rightarrow> bool" where
  "entry_ok v =
     (case binddir v of
        None \<Rightarrow> False
      | Some b \<Rightarrow> (case mode v of Some (Mode_scalar s) \<Rightarrow> False | _ \<Rightarrow> True))"

definition flat_entry :: "string \<times> volume_target \<Rightarrow> string" where
  "flat_entry e =
     fst e @ '':'' @ (case binddir (snd e) of None \<Rightarrow> [] | Some b \<Rightarrow> b) @ '':'' @
     join '','' (case mode (snd e) of Some (Mode_list ms) \<Rightarrow> ms | _ \<Rightarrow> [])"

definition volume_error :: "string \<Rightarrow> volume_target \<Rightarrow> exc" where
  "volume_error h v =
     (if binddir v = None then ValueError (''volume '' @ h @ '' 'bind' value not defined'')
      else ValueError (''volume '' @ h @ '' 'mode' value should be a list''))"

text \<open>Lines 148 to 196.\<close>

definition build_params :: "string \<Rightarrow> build_args \<Rightarrow> exc + params" where
  "build_params default_dockerfile a =
     volume_params (volumes a)
      (dumps_dict ''labels'' (labels a)
       (dumps_dict ''extrahosts'' (extra_hosts a)
        (limit_params (container_limits a)
         (dumps_list ''cachefrom'' (cache_from a)
          (dumps_dict ''buildargs'' (buildargs a)
           (initial_params default_dockerfile a))))))"

text \<open>Lines 142 to 146.\<close>

definition check_args :: "build_args \<Rightarrow> exc option" where
  "check_args a =
     (if path a = None \<and> fileobj a = None \<and> remote a = None then
        Some (TypeError ''Either path, fileobj or remote must be provided.'')
      else if kw_gzip a \<noteq> None \<and> kw_encoding a \<noteq> None then
        Some (PodmanError ''Custom encoding not supported when gzip enabled.'')
      else None)"

subsection \<open>The build context and the request\<close>

text \<open>The request body, left symbolic: a copy of the caller's buffer, or what
  \<^verbatim>\<open>api.create_tar\<close> returns for the staging directory (holding the build file under its name)
  or for the context directory (with the exclusion patterns); the flag is \<^verbatim>\<open>gzip\<close>.\<close>

datatype body =
    BytesIO string
  | Tar_tempdir string string bool
  | Tar_dir string "string list" bool

record response =
  status_error :: "exc option"
  iter_lines :: "string list"

text \<open>The collaborators. \<open>default_dockerfile\<close> is the default of the signature, a random
  name fixed when the class is created. \<open>post\<close> is \<^verbatim>\<open>self.client.post\<close> on the parameters, the
  body and the timeout, \<open>status_error\<close> of its response is what \<^verbatim>\<open>raise_for_status\<close> raises,
  \<open>images_get\<close> is \<^verbatim>\<open>self.get\<close>, \<open>loads\<close> is \<^verbatim>\<open>json.loads\<close> (the value or the exception),
  \<open>joinpath\<close> is \<^verbatim>\<open>str(path / dockerfile)\<close>. The helpers of \<^verbatim>\<open>podman.api\<close> and the creation
  of the staging file are taken to return; what they do is not part of the file.\<close>

text \<open>\<^verbatim>\<open>float(n)\<close> for an integer: \<open>Float_of n\<close> stands for the double nearest to \<open>n\<close>; from
  \<open>2 ^ 1024 - 2 ^ 970\<close> on there is none and the conversion raises.\<close>

datatype pyfloat = Float_of int

definition py_float :: "int \<Rightarrow> exc + pyfloat" where
  "py_float n =
     (if 2 ^ 1024 - 2 ^ 970 \<le> \<bar>n\<bar> then Inl (OverflowError ''int too large to convert to float'')
      else Inr (Float_of n))"

record 'img env =
  default_dockerfile :: string
  loads :: "string \<Rightarrow> exc + json"
  post :: "params \<Rightarrow> body option \<Rightarrow> pyfloat option \<Rightarrow> exc + response"
  images_get :: "string \<Rightarrow> exc + 'img"
  joinpath :: "string \<Rightarrow> string \<Rightarrow> string"
  prepare_containerfile :: "string \<Rightarrow> string \<Rightarrow> string"
  prepare_containerignore :: "string \<Rightarrow> string list"

text \<open>What the call has done to the outside: the POST requests issued, the identifiers looked
  up, whether an archive stream is open and whether a staging directory exists.\<close>

record world =
  requests :: "(params \<times> body option \<times> pyfloat option) list"
  lookups :: "string list"
  body_open :: bool
  tempdir_exists :: bool

definition untouched :: world where
  "untouched = \<lparr>requests = [], lookups = [], body_open = False, tempdir_exists = False\<rparr>"

definition truthy_bool :: "bool option \<Rightarrow> bool" where
  "truthy_bool v = (case v of None \<Rightarrow> False | Some b \<Rightarrow> b)"

definition gzip_flag :: "build_args \<Rightarrow> bool" where
  "gzip_flag a = (case kw_gzip a of None \<Rightarrow> False | Some b \<Rightarrow> b)"

text \<open>\<^verbatim>\<open>if path:\<close>. A \<^verbatim>\<open>pathlib.Path\<close> is always truthy, a string when it is not empty.\<close>

definition truthy_path :: "pathval option \<Rightarrow> bool" where
  "truthy_path v =
     (case v of None \<Rightarrow> False | Some (Path_obj p) \<Rightarrow> True | Some (Path_str s) \<Rightarrow> s \<noteq> [])"

text \<open>\<^verbatim>\<open>fileobj.getbuffer()\<close> of line 211: only an \<^verbatim>\<open>io.BytesIO\<close> has it.\<close>

definition getbuffer :: "fileobj \<Rightarrow> exc + string" where
  "getbuffer f =
     (case f of
        Bytes_file c \<Rightarrow> Inr c
      | Text_file c \<Rightarrow> Inl (AttributeError ''getbuffer'')
      | Path_file p \<Rightarrow> Inl (AttributeError ''getbuffer''))"

text \<open>
  Lines 216 and 217: \<^verbatim>\<open>shutil.copyfileobj(fileobj, file)\<close> into a file opened in text mode;
  the result is the text written. A path has no \<^verbatim>\<open>read\<close>. The bytes read from an
  \<^verbatim>\<open>io.BytesIO\<close> cannot be written to a text file; when there are none, nothing is written
  and nothing raises.
\<close>

definition copyfileobj :: "fileobj \<Rightarrow> exc + string" where
  "copyfileobj f =
     (case f of
        Text_file c \<Rightarrow> Inr c
      | Bytes_file c \<Rightarrow>
          if c = [] then Inr [] else Inl (TypeError ''write() argument must be str, not bytes'')
      | Path_file p \<Rightarrow> Inl (AttributeError ''read''))"

text \<open>
  Lines 198 to 227. The result is the exception or the body with the parameters, and whether a
  \<^verbatim>\<open>TemporaryDirectory\<close> was created. A file object is always truthy; a remote URI is truthy
  when it is not empty. When no branch is taken, \<^verbatim>\<open>body\<close> is never assigned and reading it for
  the POST call raises. Dividing a path by \<^verbatim>\<open>None\<close>, or a string by anything, is a TypeError.
\<close>

definition make_context ::
  "'img env \<Rightarrow> build_args \<Rightarrow> params \<Rightarrow> (exc + (body option \<times> params)) \<times> bool" where
  "make_context env a ps =
     (let df = arg_or (dockerfile a) (Some (default_dockerfile env)) in
      if truthy_bool (custom_context a) then
        (case fileobj a of
           None \<Rightarrow>
             (Inl (PodmanError ''Custom context requires fileobj to be set to a binary file-like object containing a build-directory tarball.''), False)
         | Some f \<Rightarrow>
            (case df of
               None \<Rightarrow>
                 (Inl (PodmanError ''Custom context requires specifying the name of the Dockerfile (typically 'Dockerfile' or 'Containerfile').''), False)
             | Some d \<Rightarrow>
                (case getbuffer f of
                   Inl e \<Rightarrow> (Inl e, False)
                 | Inr c \<Rightarrow> (Inr (Some (BytesIO c), ps), False))))
      else
        (case fileobj a of
           Some f \<Rightarrow>
            (case df of
               None \<Rightarrow> (Inl (TypeError ''unsupported operand type(s) for /''), True)
             | Some d \<Rightarrow>
                (case copyfileobj f of
                   Inl e \<Rightarrow> (Inl e, True)
                 | Inr c \<Rightarrow> (Inr (Some (Tar_tempdir d c (gzip_flag a)), ps), True)))
         | None \<Rightarrow>
            if truthy_path (path a) then
              (case path a of
                 Some (Path_obj p) \<Rightarrow>
                  (case df of
                     None \<Rightarrow> (Inl (TypeError ''unsupported operand type(s) for /''), False)
                   | Some d \<Rightarrow>
                      (Inr (Some (Tar_dir p (prepare_containerignore env p) (gzip_flag a)),
                            AList.update ''dockerfile''
                              (PStr (prepare_containerfile env p (joinpath env p d))) ps),
                       False))
               | _ \<Rightarrow> (Inl (TypeError ''unsupported operand type(s) for /''), False))
            else
              (case remote a of
                 Some (c # cs) \<Rightarrow> (Inr (None, ps), False)
               | _ \<Rightarrow> (Inl (UnboundLocalError ''body''), False))))"

text \<open>Lines 229 to 231: \<^verbatim>\<open>if timeout: post_kwargs["timeout"] = float(timeout)\<close>.\<close>

definition post_timeout :: "build_args \<Rightarrow> exc + pyfloat option" where
  "post_timeout a =
     (case timeout a of
        None \<Rightarrow> Inr None
      | Some n \<Rightarrow>
          if n \<noteq> 0 then (case py_float n of Inl e \<Rightarrow> Inl e | Inr x \<Rightarrow> Inr (Some x))
          else Inr None)"

text \<open>Lines 229 to 250: the timeout, the POST, then closing the body and cleaning the staging
  directory up, then \<^verbatim>\<open>raise_for_status\<close>.\<close>

definition submit ::
  "'img env \<Rightarrow> build_args \<Rightarrow> params \<Rightarrow> body option \<Rightarrow> bool \<Rightarrow> (exc + response) \<times> world" where
  "submit env a ps b tmp =
     (let made = \<lparr>requests = [], lookups = [], body_open = (b \<noteq> None), tempdir_exists = tmp\<rparr>
      in case post_timeout a of
           Inl e \<Rightarrow> (Inl e, made)
         | Inr t \<Rightarrow>
            (let sent = made\<lparr>requests := [(ps, b, t)]\<rparr>
             in case post env ps b t of
                  Inl e \<Rightarrow> (Inl e, sent)
                | Inr resp \<Rightarrow>
                   (let released = sent\<lparr>body_open := False, tempdir_exists := False\<rparr>
                    in case status_error resp of
                         Some e \<Rightarrow> (Inl e, released)
                       | None \<Rightarrow> (Inr resp, released))))"

text \<open>Lines 142 to 250: everything up to the response whose lines are then scanned.\<close>

definition send_request :: "'img env \<Rightarrow> build_args \<Rightarrow> (exc + response) \<times> world" where
  "send_request env a =
     (case check_args a of
        Some e \<Rightarrow> (Inl e, untouched)
      | None \<Rightarrow>
         (case build_params (default_dockerfile env) a of
            Inl e \<Rightarrow> (Inl e, untouched)
          | Inr ps \<Rightarrow>
             (case make_context env a ps of
                (Inl e, tmp) \<Rightarrow> (Inl e, untouched\<lparr>tempdir_exists := tmp\<rparr>)
              | (Inr (b, ps'), tmp) \<Rightarrow> submit env a ps' b tmp)))"

text \<open>\<^verbatim>\<open>BuildMixin.build\<close>: the request, then lines 252 to 268 on the lines of the response.\<close>

definition build :: "'img env \<Rightarrow> build_args \<Rightarrow> (exc + ('img \<times> string tee)) \<times> world" where
  "build env a =
     (case send_request env a of
        (Inl e, w) \<Rightarrow> (Inl e, w)
      | (Inr resp, w) \<Rightarrow>
         (case build_outcome (loads env) (images_get env) (iter_lines resp) of
            (r, ids) \<Rightarrow> (r, w\<lparr>lookups := ids\<rparr>)))"

subsection \<open>Sample inputs\<close>

text \<open>The call \<^verbatim>\<open>build()\<close> with no argument at all, a few lines of daemon output with what
  \<^verbatim>\<open>json.loads\<close> makes of them, and an environment whose daemon answers with two lines.\<close>

definition bare_call :: build_args where
  "bare_call =
     \<lparr>path = None, fileobj = None, tag = None, quiet = None, remote = None, nocache = None,
      rm = None, timeout = None, custom_context = None, pull = None, forcerm = None,
      dockerfile = Omitted, buildargs = None, container_limits = None, shmsize = None,
      labels = None, cache_from = None, target = None, network_mode = None, squash = None,
      extra_hosts = None, platform = None, http_proxy = None, layers = Omitted,
      output' = None, outputformat = Omitted, volumes = None, kw_gzip = None,
      kw_encoding = None\<rparr>"

definition line_step :: string where
  \<open>line_step = ''{"stream":"step 1'' @ [CHR 0x5C] @ ''n"}''\<close>

definition line_id :: string where
  \<open>line_id = ''{"stream":"deadbeef12'' @ [CHR 0x5C] @ ''n"}''\<close>

definition line_error :: string where
  \<open>line_error = ''{"error":"no such file"}''\<close>

definition line_status :: string where
  \<open>line_status = ''{"status":"pulling"}''\<close>

definition line_garbage :: string where
  \<open>line_garbage = ''<html>''\<close>

definition line_array :: string where
  \<open>line_array = ''[]''\<close>

definition line_two_newlines :: string where
  \<open>line_two_newlines = ''{"stream":"ab'' @ [CHR 0x5C] @ ''n'' @ [CHR 0x5C] @ ''n"}''\<close>

definition sample_loads :: "string \<Rightarrow> exc + json" where
  "sample_loads l =
     (if l = line_step then Inr (JObj [(''stream'', JStr ''step 1\<newline>'')])
      else if l = line_id then Inr (JObj [(''stream'', JStr ''deadbeef12\<newline>'')])
      else if l = line_error then Inr (JObj [(''error'', JStr ''no such file'')])
      else if l = line_status then Inr (JObj [(''status'', JStr ''pulling'')])
      else if l = line_two_newlines then Inr (JObj [(''stream'', JStr ''ab\<newline>\<newline>'')])
      else if l = line_array then Inr (JArr [])
      else Inl JSONDecodeError)"

definition sample_env :: "string env" where
  "sample_env =
     \<lparr>default_dockerfile = ''.containerfile.1f'',
      loads = sample_loads,
      post = (\<lambda>ps b t. Inr \<lparr>status_error = None, iter_lines = [line_step, line_id]\<rparr>),
      images_get = Inr,
      joinpath = (\<lambda>p d. p @ ''/'' @ d),
      prepare_containerfile = (\<lambda>p f. f),
      prepare_containerignore = (\<lambda>p. [])\<rparr>"

text \<open>The same environment with a daemon that answers with the given lines.\<close>

definition answering :: "string list \<Rightarrow> string env" where
  "answering ls =
     sample_env\<lparr>post := (\<lambda>ps b t. Inr \<lparr>status_error = None, iter_lines = ls\<rparr>)\<rparr>"

text \<open>A build from a loose build file (a text file object), a build from a tarball (an
  \<^verbatim>\<open>io.BytesIO\<close>) with the build-file name left out, and an environment whose POST raises a
  connection error.\<close>

definition loose_file_call :: build_args where
  "loose_file_call = bare_call\<lparr>fileobj := Some (Text_file ''FROM scratch'')\<rparr>"

definition custom_call :: build_args where
  "custom_call = bare_call\<lparr>fileobj := Some (Bytes_file ''tarball''), custom_context := Some True\<rparr>"

definition offline_env :: "string env" where
  "offline_env = sample_env\<lparr>post := (\<lambda>ps b t. Inl (Foreign ''ConnectionError''))\<rparr>"

text \<open>A build from a directory with a memory limit and nothing else, and the parameters
  the code makes of it.\<close>

definition dir_call :: build_args where
  "dir_call = bare_call\<lparr>path := Some (Path_obj ''ctx''), container_limits := Some [(''memory'', PInt 1024)]\<rparr>"

definition dir_params :: params where
  "dir_params =
     [(''dockerfile'', PStr ''.containerfile.1f''), (''forcerm'', PNone), (''httpproxy'', PNone),
      (''networkmode'', PNone), (''nocache'', PNone), (''platform'', PNone), (''pull'', PNone),
      (''q'', PNone), (''remote'', PNone), (''rm'', PNone), (''shmsize'', PNone),
      (''squash'', PNone), (''t'', PNone), (''target'', PNone), (''layers'', PBool True),
      (''output'', PNone), (''outputformat'', PStr outputformat_default),
      (''cpuperiod'', PNone), (''cpuquota'', PNone), (''cpusetcpus'', PNone),
      (''cpushares'', PNone), (''memory'', PInt 1024), (''memswap'', PNone)]"

text \<open>The two volumes of the docstring, one entry with no bind path and one with a scalar
  mode, and builds from a directory with them.\<close>

definition host_volumes :: "(string \<times> volume_target) list" where
  "host_volumes =
     [(''/etc/host'', \<lparr>binddir = Some ''/etc/host'', mode = Some (Mode_list [])\<rparr>),
      (''/tmp/cache'', \<lparr>binddir = Some ''/var/cache/libdnf5'', mode = Some (Mode_list [''rw'', ''z''])\<rparr>)]"

definition scalar_mode_volume :: "string \<times> volume_target" where
  "scalar_mode_volume = (''/srv'', \<lparr>binddir = Some ''/srv'', mode = Some (Mode_scalar ''ro'')\<rparr>)"

definition unbound_volume :: "string \<times> volume_target" where
  "unbound_volume = (''/data'', \<lparr>binddir = None, mode = None\<rparr>)"

definition volumes_call :: build_args where
  "volumes_call = bare_call\<lparr>path := Some (Path_obj ''ctx''), volumes := Some host_volumes\<rparr>"

definition bad_volumes_call :: build_args where
  "bad_volumes_call =
     bare_call\<lparr>path := Some (Path_obj ''ctx''),
               volumes := Some (host_volumes @ [unbound_volume, scalar_mode_volume])\<rparr>"






text \<open>What a build from the loose build file has done outside once the response is there,
  and the parameters sent for the build from a directory.\<close>

definition loose_file_sent :: world where
  "loose_file_sent =
     \<lparr>requests = [(initial_params ''.containerfile.1f'' loose_file_call,
                    Some (Tar_tempdir ''.containerfile.1f'' ''FROM scratch'' False), None)],
      lookups = [], body_open = False, tempdir_exists = False\<rparr>"

definition dir_sent_params :: params where
  "dir_sent_params =
     [(''dockerfile'', PStr ''ctx/.containerfile.1f''), (''forcerm'', PNone), (''httpproxy'', PNone),
      (''networkmode'', PNone), (''nocache'', PNone), (''platform'', PNone), (''pull'', PNone),
      (''q'', PNone), (''remote'', PNone), (''rm'', PNone), (''shmsize'', PNone),
      (''squash'', PNone), (''t'', PNone), (''target'', PNone), (''layers'', PBool True),
      (''output'', PNone), (''outputformat'', PStr outputformat_default),
      (''cpuperiod'', PNone), (''cpuquota'', PNone), (''cpusetcpus'', PNone),
      (''cpushares'', PNone), (''memory'', PInt 1024), (''memswap'', PNone)]"

section \<open>Properties\<close>

subsection \<open>The scan over well-formed events\<close>

lemma scan_empty:
  "scan dec \<lparr>source = [], report_buf = rb, stream_buf = []\<rparr> i u
     = Inr (i, u, \<lparr>source = [], report_buf = rb, stream_buf = []\<rparr>)"
  by (subst scan.simps) (simp add: next_stream_def)

lemma scan_cons:
  "scan dec \<lparr>source = x # xs, report_buf = rb, stream_buf = []\<rparr> i u =
     (case dec x of
        Inl e \<Rightarrow> Inl e
      | Inr result \<Rightarrow>
         (case scan_line result i of
            Fault e \<Rightarrow> Inl e
          | Error_event m \<Rightarrow>
              Inl (BuildError (Msg_json m) \<lparr>source = xs, report_buf = rb @ [x], stream_buf = []\<rparr>)
          | Carry_on i' \<Rightarrow>
              scan dec \<lparr>source = xs, report_buf = rb @ [x], stream_buf = []\<rparr> i' (Some x)))"
  by (subst scan.simps) (simp add: next_stream_def)

lemma plain_eventE:
  assumes "plain_event dec l"
  obtains kvs where "dec l = Inr (JObj kvs)" "map_of kvs ''error'' = None"
    "map_of kvs ''stream'' = None \<or> (\<exists>s. map_of kvs ''stream'' = Some (JStr s))"
proof -
  from assms obtain r where r: "dec l = Inr r"
    by (cases "dec l") (simp_all add: plain_event_def)
  with assms obtain kvs where k: "r = JObj kvs"
    by (cases r) (simp_all add: plain_event_def)
  from assms r k have e: "map_of kvs ''error'' = None"
    by (simp add: plain_event_def)
  from assms r k have
    "map_of kvs ''stream'' = None \<or> (\<exists>s. map_of kvs ''stream'' = Some (JStr s))"
    by (cases "map_of kvs ''stream''") (simp_all add: plain_event_def split: json.splits)
  with r k e that show thesis by blast
qed

lemma scan_line_object:
  "map_of kvs ''error'' = None \<Longrightarrow> map_of kvs ''stream'' = None \<Longrightarrow>
     scan_line (JObj kvs) i = Carry_on i"
  "map_of kvs ''error'' = None \<Longrightarrow> map_of kvs ''stream'' = Some (JStr s) \<Longrightarrow>
     scan_line (JObj kvs) i = Carry_on (case marker_match s of None \<Rightarrow> i | Some g \<Rightarrow> Some g)"
  "map_of kvs ''error'' = Some m \<Longrightarrow> scan_line (JObj kvs) i = Error_event m"
  by (simp_all add: scan_line_def split: option.splits)

lemma scan_line_plain:
  assumes "plain_event dec l"
  shows "\<exists>r. dec l = Inr r \<and>
         scan_line r i = Carry_on (case marker_of dec l of None \<Rightarrow> i | Some g \<Rightarrow> Some g)"
proof -
  from assms obtain kvs where k: "dec l = Inr (JObj kvs)" "map_of kvs ''error'' = None"
    and s: "map_of kvs ''stream'' = None \<or> (\<exists>s. map_of kvs ''stream'' = Some (JStr s))"
    by (rule plain_eventE)
  from s show ?thesis
  proof
    assume n: "map_of kvs ''stream'' = None"
    with k show ?thesis
      by (simp add: scan_line_object(1) marker_of_def stream_text_def)
  next
    assume "\<exists>s. map_of kvs ''stream'' = Some (JStr s)"
    then obtain s where "map_of kvs ''stream'' = Some (JStr s)" ..
    with k show ?thesis
      by (simp add: scan_line_object(2) marker_of_def stream_text_def)
  qed
qed

lemma scan_plain_prefix:
  "list_all (plain_event dec) pre \<Longrightarrow>
   scan dec \<lparr>source = pre @ rest, report_buf = rb, stream_buf = []\<rparr> i u =
   scan dec \<lparr>source = rest, report_buf = rb @ pre, stream_buf = []\<rparr>
     (last_marker dec pre i) (if pre = [] then u else Some (last pre))"
proof (induction pre arbitrary: rb i u)
  case Nil
  then show ?case by simp
next
  case (Cons l pre)
  from Cons.prems have pl: "plain_event dec l" and rest: "list_all (plain_event dec) pre"
    by simp_all
  from scan_line_plain [OF pl, of i] obtain r where
    r: "dec l = Inr r"
       "scan_line r i = Carry_on (case marker_of dec l of None \<Rightarrow> i | Some g \<Rightarrow> Some g)"
    by blast
  show ?case
    using Cons.IH [OF rest, of "rb @ [l]"] r
    by (simp add: scan_cons)
qed

lemma drain_report_all: "drain_report t = report_buf t @ source t"
proof (induction t rule: drain_report.induct)
  case (1 t)
  show ?case
  proof (cases "next_report t")
    case None
    then show ?thesis
      by (subst drain_report.simps) (auto simp: next_report_def split: list.splits)
  next
    case (Some p)
    obtain x t' where p: "p = (x, t')" by (cases p)
    from "1.IH" [OF Some [unfolded p] refl] have "drain_report t' = report_buf t' @ source t'" .
    with Some p show ?thesis
      by (subst drain_report.simps) (auto simp: next_report_def split: list.splits)
  qed
qed

lemma scan_error_line:
  assumes "dec l = Inr (JObj kvs)" and "map_of kvs ''error'' = Some m"
  shows "scan dec \<lparr>source = l # after, report_buf = rb, stream_buf = []\<rparr> i u =
           Inl (BuildError (Msg_json m) \<lparr>source = after, report_buf = rb @ [l], stream_buf = []\<rparr>)"
  using assms by (simp add: scan_cons scan_line_object(3))

lemma scan_bad_line:
  assumes "dec l = Inl e"
  shows "scan dec \<lparr>source = l # after, report_buf = rb, stream_buf = []\<rparr> i u = Inl e"
  using assms by (simp add: scan_cons)

lemma last_marker_none:
  "list_all (\<lambda>l. marker_of dec l = None) ls \<Longrightarrow> last_marker dec ls acc = acc"
  by (induction ls arbitrary: acc) simp_all

lemma plain_event_nonempty:
  "plain_event dec l \<Longrightarrow> dec [] = Inl e \<Longrightarrow> l \<noteq> []"
  by (auto simp: plain_event_def)

text \<open>What the marker accepts: a non-empty run of lowercase hex digits followed by one
  newline, or by two.\<close>

lemma marker_match_iff:
  "marker_match s = Some h \<longleftrightarrow>
     h \<noteq> [] \<and> list_all hexdigit h \<and> (s = h @ ''\<newline>'' \<or> s = h @ ''\<newline>\<newline>'')"
proof
  assume "marker_match s = Some h"
  then have h: "h = takeWhile hexdigit s" "h \<noteq> []"
    and r: "dropWhile hexdigit s = ''\<newline>'' \<or> dropWhile hexdigit s = ''\<newline>\<newline>''"
    by (auto simp: marker_match_def Let_def split: if_splits)
  have "s = takeWhile hexdigit s @ dropWhile hexdigit s" by simp
  with h r have "s = h @ ''\<newline>'' \<or> s = h @ ''\<newline>\<newline>''" by metis
  moreover from h have "list_all hexdigit h"
    by (simp add: list_all_iff) (meson set_takeWhileD)
  ultimately show "h \<noteq> [] \<and> list_all hexdigit h \<and> (s = h @ ''\<newline>'' \<or> s = h @ ''\<newline>\<newline>'')"
    using h by simp
next
  assume a: "h \<noteq> [] \<and> list_all hexdigit h \<and> (s = h @ ''\<newline>'' \<or> s = h @ ''\<newline>\<newline>'')"
  have nl: "\<not> hexdigit CHR ''\<newline>''" by (simp add: hexdigit_def)
  from a have all: "\<forall>c\<in>set h. hexdigit c" by (simp add: list_all_iff)
  have t: "\<And>r. takeWhile hexdigit (h @ CHR ''\<newline>'' # r) = h"
    using all nl by (simp add: takeWhile_tail)
  have d: "\<And>r. dropWhile hexdigit (h @ CHR ''\<newline>'' # r) = CHR ''\<newline>'' # r"
    using all nl by (simp add: dropWhile_append3)
  from a t d show "marker_match s = Some h"
    by (auto simp: marker_match_def Let_def)
qed

text \<open>On a stream of well-formed events the identifier of the last marker line is the one
  looked up.\<close>

lemma marker_of_nonempty: "marker_of dec l = Some g \<Longrightarrow> g \<noteq> []"
  by (auto simp: marker_of_def marker_match_iff split: option.splits)

lemma last_marker_nonempty:
  "last_marker dec ls acc = Some g \<Longrightarrow> acc = Some g \<or> g \<noteq> []"
proof (induction ls arbitrary: acc)
  case Nil
  then show ?case by simp
next
  case (Cons l ls)
  from Cons.IH [OF Cons.prems [simplified]]
  show ?case
    by (auto dest: marker_of_nonempty split: option.splits)
qed

lemma last_marker_append:
  "last_marker dec (xs @ ys) acc = last_marker dec ys (last_marker dec xs acc)"
  by (induction xs arbitrary: acc) simp_all

lemma last_marker_is_looked_up:
  assumes "list_all (plain_event dec) lines" and "last_marker dec lines None = Some g"
  shows "build_outcome dec lookup lines =
           (case lookup g of
              Inl e \<Rightarrow> (Inl e, [g])
            | Inr img \<Rightarrow>
                (Inr (img, \<lparr>source = [], report_buf = lines, stream_buf = []\<rparr>), [g]))"
proof -
  from last_marker_nonempty [OF assms(2)] have g: "g \<noteq> []" by simp
  have "scan dec (tee_of lines) None None =
          Inr (Some g, if lines = [] then None else Some (last lines),
               \<lparr>source = [], report_buf = lines, stream_buf = []\<rparr>)"
    using scan_plain_prefix [OF assms(1), of "[]" "[]" None None] assms(2)
    by (simp add: tee_of_def scan_empty)
  with g show ?thesis
    by (simp add: build_outcome_def split: sum.splits)
qed

subsection \<open>Facts about the sample inputs\<close>

lemmas sample_lines =
  line_step_def line_id_def line_error_def line_status_def line_garbage_def
  line_two_newlines_def line_array_def

lemma sample_loads_simps:
  "sample_loads line_step = Inr (JObj [(''stream'', JStr ''step 1\<newline>'')])"
  "sample_loads line_id = Inr (JObj [(''stream'', JStr ''deadbeef12\<newline>'')])"
  "sample_loads line_error = Inr (JObj [(''error'', JStr ''no such file'')])"
  "sample_loads line_status = Inr (JObj [(''status'', JStr ''pulling'')])"
  "sample_loads line_two_newlines = Inr (JObj [(''stream'', JStr ''ab\<newline>\<newline>'')])"
  "sample_loads line_array = Inr (JArr [])"
  "sample_loads line_garbage = Inl JSONDecodeError"
  "sample_loads [] = Inl JSONDecodeError"
  by (simp_all add: sample_loads_def sample_lines)

lemma marker_examples:
  "marker_match ''step 1\<newline>'' = None"
  "marker_match ''deadbeef12\<newline>'' = Some ''deadbeef12''"
  "marker_match ''ab\<newline>\<newline>'' = Some ''ab''"
  by (simp_all add: marker_match_def hexdigit_def)

lemma plain_samples:
  "plain_event sample_loads line_step"
  "plain_event sample_loads line_id"
  "plain_event sample_loads line_status"
  "plain_event sample_loads line_two_newlines"
  by (simp_all add: plain_event_def sample_loads_simps)

lemma marker_of_samples:
  "marker_of sample_loads line_step = None"
  "marker_of sample_loads line_status = None"
  "marker_of sample_loads line_id = Some ''deadbeef12''"
  "marker_of sample_loads line_two_newlines = Some ''ab''"
  by (simp_all add: marker_of_def stream_text_def sample_loads_simps marker_examples)

lemma sample_env_fields:
  "default_dockerfile sample_env = ''.containerfile.1f''"
  "loads sample_env = sample_loads"
  "post sample_env ps b t = Inr \<lparr>status_error = None, iter_lines = [line_step, line_id]\<rparr>"
  "images_get sample_env = Inr"
  "joinpath sample_env p d = p @ ''/'' @ d"
  "prepare_containerfile sample_env p f = f"
  "prepare_containerignore sample_env p = []"
  by (simp_all add: sample_env_def)

lemma offline_env_fields:
  "default_dockerfile offline_env = ''.containerfile.1f''"
  "post offline_env ps b t = Inl (Foreign ''ConnectionError'')"
  by (simp_all add: offline_env_def sample_env_def)

lemma answering_fields:
  "default_dockerfile (answering ls) = ''.containerfile.1f''"
  "loads (answering ls) = sample_loads"
  "post (answering ls) ps b t = Inr \<lparr>status_error = None, iter_lines = ls\<rparr>"
  "images_get (answering ls) = Inr"
  "joinpath (answering ls) p d = p @ ''/'' @ d"
  "prepare_containerfile (answering ls) p f = f"
  "prepare_containerignore (answering ls) p = []"
  by (simp_all add: answering_def sample_env_def)

lemma build_params_plain:
  assumes "buildargs a = None" "cache_from a = None" "container_limits a = None"
    "extra_hosts a = None" "labels a = None" "volumes a = None"
  shows "build_params dd a = Inr (initial_params dd a)"
  using assms
  by (simp add: build_params_def volume_params_def dumps_dict_def dumps_list_def limit_params_def)

lemma sample_outcome:
  "build_outcome sample_loads Inr [line_step, line_id] =
     (Inr (''deadbeef12'', \<lparr>source = [], report_buf = [line_step, line_id], stream_buf = []\<rparr>),
      [''deadbeef12''])"
proof -
  have "scan sample_loads (tee_of [line_step, line_id]) None None =
          Inr (Some ''deadbeef12'', Some line_id,
               \<lparr>source = [], report_buf = [line_step, line_id], stream_buf = []\<rparr>)"
    using scan_plain_prefix [of sample_loads "[line_step, line_id]" "[]" "[]" None None]
    by (simp add: tee_of_def scan_empty plain_samples marker_of_samples)
  then show ?thesis
    by (simp add: build_outcome_def)
qed

subsection \<open>The request and what follows it\<close>

text \<open>Once the POST has returned a response, the body is closed and the staging directory
  removed, whatever the status is.\<close>

lemma cleanup_after_response:
  "post_timeout a = Inr t \<Longrightarrow> post env ps b t = Inr resp \<Longrightarrow>
     \<not> body_open (snd (submit env a ps b tmp)) \<and> \<not> tempdir_exists (snd (submit env a ps b tmp))"
  by (simp add: submit_def Let_def split: option.splits)

lemma submit_response:
  assumes "submit env a ps b tmp = (Inr resp, w)"
  shows "\<exists>t. post_timeout a = Inr t \<and> post env ps b t = Inr resp \<and> status_error resp = None \<and>
             w = \<lparr>requests = [(ps, b, t)], lookups = [], body_open = False,
                  tempdir_exists = False\<rparr>"
  using assms by (auto simp: submit_def Let_def split: sum.splits option.splits)

text \<open>A response is only returned with the body closed, the staging directory removed and
  one request issued.\<close>

lemma send_request_response:
  assumes "send_request env a = (Inr resp, w)"
  shows "\<exists>ps b t. w = \<lparr>requests = [(ps, b, t)], lookups = [], body_open = False,
                        tempdir_exists = False\<rparr> \<and>
                   post env ps b t = Inr resp \<and> status_error resp = None"
proof -
  from assms obtain ps b tmp where "submit env a ps b tmp = (Inr resp, w)"
    by (auto simp: send_request_def split: option.splits sum.splits prod.splits)
  from submit_response [OF this] show ?thesis by blast
qed

text \<open>The two phases of the build.\<close>

lemma build_after_response:
  assumes "send_request env a = (Inr resp, w)"
  shows "build env a =
           (fst (build_outcome (loads env) (images_get env) (iter_lines resp)),
            w\<lparr>lookups := snd (build_outcome (loads env) (images_get env) (iter_lines resp))\<rparr>)"
  using assms by (simp add: build_def split: prod.splits)

lemma build_without_response:
  assumes "send_request env a = (Inl e, w)"
  shows "build env a = (Inl e, w)"
  using assms by (simp add: build_def)

text \<open>The request of a call that passes the local checks, step by step.\<close>

lemma send_request_steps:
  assumes "check_args a = None" and "build_params (default_dockerfile env) a = Inr ps"
      and "make_context env a ps = (Inr (b, ps'), tmp)" and "post_timeout a = Inr t"
  shows "send_request env a =
           (case post env ps' b t of
              Inl e \<Rightarrow>
                (Inl e, \<lparr>requests = [(ps', b, t)], lookups = [], body_open = (b \<noteq> None),
                         tempdir_exists = tmp\<rparr>)
            | Inr resp \<Rightarrow>
                (case status_error resp of
                   Some e \<Rightarrow>
                     (Inl e, \<lparr>requests = [(ps', b, t)], lookups = [], body_open = False,
                              tempdir_exists = False\<rparr>)
                 | None \<Rightarrow>
                     (Inr resp, \<lparr>requests = [(ps', b, t)], lookups = [], body_open = False,
                                 tempdir_exists = False\<rparr>)))"
  using assms by (simp add: send_request_def submit_def Let_def split: sum.splits option.splits)

text \<open>With the build-file name given as \<^verbatim>\<open>None\<close>, a custom context is refused.\<close>

lemma custom_context_dockerfile_None:
  "truthy_bool (custom_context a) \<Longrightarrow> dockerfile a = Given None \<Longrightarrow>
     \<exists>m. make_context env a ps = (Inl (PodmanError m), False)"
  by (simp add: make_context_def arg_or_def split: option.splits)

text \<open>The sample calls up to the context.\<close>

lemma loose_file_call_steps:
  "check_args loose_file_call = None"
  "build_params dd loose_file_call = Inr (initial_params dd loose_file_call)"
  "default_dockerfile env = ''.containerfile.1f'' \<Longrightarrow>
     make_context env loose_file_call ps =
       (Inr (Some (Tar_tempdir ''.containerfile.1f'' ''FROM scratch'' False), ps), True)"
  "post_timeout loose_file_call = Inr None"
proof -
  show "check_args loose_file_call = None"
    by (simp add: check_args_def loose_file_call_def bare_call_def)
  show "build_params dd loose_file_call = Inr (initial_params dd loose_file_call)"
    by (rule build_params_plain) (simp_all add: loose_file_call_def bare_call_def)
  show "default_dockerfile env = ''.containerfile.1f'' \<Longrightarrow>
     make_context env loose_file_call ps =
       (Inr (Some (Tar_tempdir ''.containerfile.1f'' ''FROM scratch'' False), ps), True)"
    by (simp add: make_context_def loose_file_call_def bare_call_def arg_or_def truthy_bool_def
          gzip_flag_def copyfileobj_def)
  show "post_timeout loose_file_call = Inr None"
    by (simp add: post_timeout_def loose_file_call_def bare_call_def)
qed

lemma loose_file_request:
  "send_request (answering ls) loose_file_call =
     (Inr \<lparr>status_error = None, iter_lines = ls\<rparr>,
      \<lparr>requests = [(initial_params ''.containerfile.1f'' loose_file_call,
                     Some (Tar_tempdir ''.containerfile.1f'' ''FROM scratch'' False), None)],
       lookups = [], body_open = False, tempdir_exists = False\<rparr>)"
  by (simp add: send_request_steps [OF loose_file_call_steps(1) loose_file_call_steps(2)
                  loose_file_call_steps(3) loose_file_call_steps(4)] answering_fields)


subsection \<open>The parameters, key by key\<close>

lemma map_of_dumps_dict:
  "map_of (dumps_dict k d ps) k' =
     (case d of
        Some (x # xs) \<Rightarrow>
          if k' = k then Some (PDumps (JObj (map (\<lambda>(n, v). (n, JStr v)) (x # xs))))
          else map_of ps k'
      | _ \<Rightarrow> map_of ps k')"
  by (simp add: dumps_dict_def update_conv' split: option.splits list.splits)

lemma map_of_dumps_list:
  "map_of (dumps_list k d ps) k' =
     (case d of
        Some (x # xs) \<Rightarrow> if k' = k then Some (PDumps (JArr (map JStr (x # xs)))) else map_of ps k'
      | _ \<Rightarrow> map_of ps k')"
  by (simp add: dumps_list_def update_conv' split: option.splits list.splits)

lemma map_of_limit_params:
  "map_of (limit_params d ps) k' =
     (case d of
        Some (x # xs) \<Rightarrow> if k' \<in> set limit_keys then Some (limit (x # xs) k') else map_of ps k'
      | _ \<Rightarrow> map_of ps k')"
  by (simp add: limit_params_def limit_keys_def update_conv' Let_def
           split: option.splits list.splits)

lemma map_of_volume_params:
  "volume_params d ps = Inr ps' \<Longrightarrow> k' \<noteq> ''volume'' \<Longrightarrow> map_of ps' k' = map_of ps k'"
  by (auto simp: volume_params_def update_conv' split: option.splits list.splits sum.splits)

lemma map_of_initial_params:
  "map_of (initial_params dd a) =
     [''dockerfile'' \<mapsto> of_str (arg_or (dockerfile a) (Some dd)),
      ''forcerm'' \<mapsto> of_bool (forcerm a),
      ''httpproxy'' \<mapsto> of_bool (http_proxy a),
      ''networkmode'' \<mapsto> of_str (network_mode a),
      ''nocache'' \<mapsto> of_bool (nocache a),
      ''platform'' \<mapsto> of_str (platform a),
      ''pull'' \<mapsto> of_bool (pull a),
      ''q'' \<mapsto> of_bool (quiet a),
      ''remote'' \<mapsto> of_str (remote a),
      ''rm'' \<mapsto> of_bool (rm a),
      ''shmsize'' \<mapsto> of_int (shmsize a),
      ''squash'' \<mapsto> of_bool (squash a),
      ''t'' \<mapsto> of_str (tag a),
      ''target'' \<mapsto> of_str (target a),
      ''layers'' \<mapsto> of_bool (arg_or (layers a) (Some True)),
      ''output'' \<mapsto> of_str (output' a),
      ''outputformat'' \<mapsto> of_str (arg_or (outputformat a) (Some outputformat_default))]"
  by (rule ext) (simp add: initial_params_def)

lemma before_volumes:
  assumes "build_params dd a = Inr ps" and "k \<noteq> ''volume''"
  shows "map_of ps k =
           map_of (dumps_dict ''labels'' (labels a)
             (dumps_dict ''extrahosts'' (extra_hosts a)
               (limit_params (container_limits a)
                 (dumps_list ''cachefrom'' (cache_from a)
                   (dumps_dict ''buildargs'' (buildargs a) (initial_params dd a)))))) k"
  using assms unfolding build_params_def by (rule map_of_volume_params)

lemma dumps_dict_other: "k' \<noteq> k \<Longrightarrow> map_of (dumps_dict k d ps) k' = map_of ps k'"
  by (simp add: map_of_dumps_dict split: option.splits list.splits)

lemma dumps_list_other: "k' \<noteq> k \<Longrightarrow> map_of (dumps_list k d ps) k' = map_of ps k'"
  by (simp add: map_of_dumps_list split: option.splits list.splits)

lemma limit_params_other:
  "k' \<notin> set limit_keys \<Longrightarrow> map_of (limit_params d ps) k' = map_of ps k'"
  by (simp add: map_of_limit_params split: option.splits list.splits)

lemma dumps_dict_same:
  "map_of ps k = None \<Longrightarrow>
   map_of (dumps_dict k d ps) k =
     (case d of
        Some (x # xs) \<Rightarrow> Some (PDumps (JObj (map (\<lambda>(n, v). (n, JStr v)) (x # xs))))
      | _ \<Rightarrow> None)"
  by (simp add: map_of_dumps_dict split: option.splits list.splits)

lemma dumps_list_same:
  "map_of ps k = None \<Longrightarrow>
   map_of (dumps_list k d ps) k =
     (case d of Some (x # xs) \<Rightarrow> Some (PDumps (JArr (map JStr (x # xs)))) | _ \<Rightarrow> None)"
  by (simp add: map_of_dumps_list split: option.splits list.splits)

lemma limit_params_same:
  "map_of ps k = None \<Longrightarrow> k \<in> set limit_keys \<Longrightarrow>
   map_of (limit_params d ps) k =
     (case d of Some (x # xs) \<Rightarrow> Some (limit (x # xs) k) | _ \<Rightarrow> None)"
  by (simp add: map_of_limit_params split: option.splits list.splits)

lemmas other_keys = dumps_dict_other dumps_list_other limit_params_other


lemma scalar_params:
  assumes "build_params dd a = Inr ps"
  shows "map_of ps ''dockerfile'' = Some (of_str (arg_or (dockerfile a) (Some dd)))"
    and "map_of ps ''forcerm'' = Some (of_bool (forcerm a))"
    and "map_of ps ''httpproxy'' = Some (of_bool (http_proxy a))"
    and "map_of ps ''networkmode'' = Some (of_str (network_mode a))"
    and "map_of ps ''nocache'' = Some (of_bool (nocache a))"
    and "map_of ps ''platform'' = Some (of_str (platform a))"
    and "map_of ps ''pull'' = Some (of_bool (pull a))"
    and "map_of ps ''q'' = Some (of_bool (quiet a))"
    and "map_of ps ''remote'' = Some (of_str (remote a))"
    and "map_of ps ''rm'' = Some (of_bool (rm a))"
    and "map_of ps ''shmsize'' = Some (of_int (shmsize a))"
    and "map_of ps ''squash'' = Some (of_bool (squash a))"
    and "map_of ps ''t'' = Some (of_str (tag a))"
    and "map_of ps ''target'' = Some (of_str (target a))"
    and "map_of ps ''layers'' = Some (of_bool (arg_or (layers a) (Some True)))"
    and "map_of ps ''output'' = Some (of_str (output' a))"
    and "map_of ps ''outputformat'' = Some (of_str (arg_or (outputformat a) (Some outputformat_default)))"
  by (simp_all add: before_volumes [OF assms] other_keys limit_keys_def map_of_initial_params)

lemma collection_params:
  assumes "build_params dd a = Inr ps"
  shows "map_of ps ''buildargs'' =
           (case buildargs a of
              Some (x # xs) \<Rightarrow> Some (PDumps (JObj (map (\<lambda>(n, v). (n, JStr v)) (x # xs))))
            | _ \<Rightarrow> None)"
    and "map_of ps ''cachefrom'' =
           (case cache_from a of
              Some (x # xs) \<Rightarrow> Some (PDumps (JArr (map JStr (x # xs))))
            | _ \<Rightarrow> None)"
    and "map_of ps ''extrahosts'' =
           (case extra_hosts a of
              Some (x # xs) \<Rightarrow> Some (PDumps (JObj (map (\<lambda>(n, v). (n, JStr v)) (x # xs))))
            | _ \<Rightarrow> None)"
    and "map_of ps ''labels'' =
           (case labels a of
              Some (x # xs) \<Rightarrow> Some (PDumps (JObj (map (\<lambda>(n, v). (n, JStr v)) (x # xs))))
            | _ \<Rightarrow> None)"
proof -
  have i: "map_of (initial_params dd a) ''buildargs'' = None"
    "map_of (initial_params dd a) ''cachefrom'' = None"
    "map_of (initial_params dd a) ''extrahosts'' = None"
    "map_of (initial_params dd a) ''labels'' = None"
    by (simp_all add: map_of_initial_params)
  show "map_of ps ''buildargs'' =
           (case buildargs a of
              Some (x # xs) \<Rightarrow> Some (PDumps (JObj (map (\<lambda>(n, v). (n, JStr v)) (x # xs))))
            | _ \<Rightarrow> None)"
    by (simp add: before_volumes [OF assms] other_keys limit_keys_def dumps_dict_same i)
  show "map_of ps ''cachefrom'' =
           (case cache_from a of
              Some (x # xs) \<Rightarrow> Some (PDumps (JArr (map JStr (x # xs))))
            | _ \<Rightarrow> None)"
    by (simp add: before_volumes [OF assms] other_keys limit_keys_def dumps_list_same i)
  show "map_of ps ''extrahosts'' =
           (case extra_hosts a of
              Some (x # xs) \<Rightarrow> Some (PDumps (JObj (map (\<lambda>(n, v). (n, JStr v)) (x # xs))))
            | _ \<Rightarrow> None)"
    by (simp add: before_volumes [OF assms] other_keys limit_keys_def dumps_dict_same i)
  show "map_of ps ''labels'' =
           (case labels a of
              Some (x # xs) \<Rightarrow> Some (PDumps (JObj (map (\<lambda>(n, v). (n, JStr v)) (x # xs))))
            | _ \<Rightarrow> None)"
    by (simp add: before_volumes [OF assms] other_keys limit_keys_def dumps_dict_same i)
qed

lemma limit_lookup:
  assumes "build_params dd a = Inr ps" and "k \<noteq> ''volume''" and "k \<noteq> ''labels''"
    and "k \<noteq> ''extrahosts''" and "k \<noteq> ''cachefrom''" and "k \<noteq> ''buildargs''"
    and "map_of (initial_params dd a) k = None" and "k \<in> set limit_keys"
  shows "map_of ps k =
           (case container_limits a of
              Some (x # xs) \<Rightarrow> Some (limit (x # xs) k)
            | _ \<Rightarrow> None)"
proof -
  have 1: "map_of (dumps_dict ''buildargs'' (buildargs a) (initial_params dd a)) k = None"
    using assms(6,7) by (simp add: dumps_dict_other)
  have 2: "map_of (dumps_list ''cachefrom'' (cache_from a)
          (dumps_dict ''buildargs'' (buildargs a) (initial_params dd a))) k = None"
    using assms(5) 1 by (simp add: dumps_list_other)
  have 3: "map_of (limit_params (container_limits a) (dumps_list ''cachefrom'' (cache_from a)
          (dumps_dict ''buildargs'' (buildargs a) (initial_params dd a)))) k =
           (case container_limits a of
              Some (x # xs) \<Rightarrow> Some (limit (x # xs) k)
            | _ \<Rightarrow> None)"
    using 2 assms(8) by (rule limit_params_same)
  have "map_of ps k =
           map_of (dumps_dict ''labels'' (labels a)
             (dumps_dict ''extrahosts'' (extra_hosts a)
               (limit_params (container_limits a)
                 (dumps_list ''cachefrom'' (cache_from a)
                   (dumps_dict ''buildargs'' (buildargs a) (initial_params dd a)))))) k"
    using assms(1,2) by (rule before_volumes)
  also have "\<dots> = map_of (limit_params (container_limits a)
                 (dumps_list ''cachefrom'' (cache_from a)
                   (dumps_dict ''buildargs'' (buildargs a) (initial_params dd a)))) k"
    using assms(3,4) by (simp add: dumps_dict_other)
  finally show ?thesis using 3 by simp
qed

lemma limit_key_params:
  assumes "build_params dd a = Inr ps"
  shows "map_of ps ''cpuperiod'' =
           (case container_limits a of Some (x # xs) \<Rightarrow> Some (limit (x # xs) ''cpuperiod'') | _ \<Rightarrow> None)"
    and "map_of ps ''cpuquota'' =
           (case container_limits a of Some (x # xs) \<Rightarrow> Some (limit (x # xs) ''cpuquota'') | _ \<Rightarrow> None)"
    and "map_of ps ''cpusetcpus'' =
           (case container_limits a of Some (x # xs) \<Rightarrow> Some (limit (x # xs) ''cpusetcpus'') | _ \<Rightarrow> None)"
    and "map_of ps ''cpushares'' =
           (case container_limits a of Some (x # xs) \<Rightarrow> Some (limit (x # xs) ''cpushares'') | _ \<Rightarrow> None)"
    and "map_of ps ''memory'' =
           (case container_limits a of Some (x # xs) \<Rightarrow> Some (limit (x # xs) ''memory'') | _ \<Rightarrow> None)"
    and "map_of ps ''memswap'' =
           (case container_limits a of Some (x # xs) \<Rightarrow> Some (limit (x # xs) ''memswap'') | _ \<Rightarrow> None)"
  by (rule limit_lookup [OF assms]; simp add: initial_params_def limit_keys_def)+


lemma dir_call_params: "build_params ''.containerfile.1f'' dir_call = Inr dir_params"
  by (simp add: build_params_def volume_params_def dumps_dict_def dumps_list_def
        limit_params_def limit_def initial_params_def dir_call_def bare_call_def
        of_str_def of_bool_def of_int_def arg_or_def dir_params_def)

subsection \<open>The volumes loop\<close>

lemma volume_entries_ok:
  "list_all (\<lambda>e. entry_ok (snd e)) vs \<Longrightarrow>
     volume_entries vs acc = Inr (acc @ map flat_entry vs)"
proof (induction vs arbitrary: acc)
  case Nil
  then show ?case by simp
next
  case (Cons e vs)
  obtain h v where e: "e = (h, v)" by (cases e)
  from Cons.prems e have ok: "entry_ok v" and rest: "list_all (\<lambda>e. entry_ok (snd e)) vs"
    by simp_all
  from ok obtain b where b: "binddir v = Some b"
    by (cases "binddir v") (simp_all add: entry_ok_def)
  from ok b have m: "mode v = None \<or> (\<exists>ms. mode v = Some (Mode_list ms))"
    by (cases "mode v") (auto simp: entry_ok_def split: mode_val.splits)
  from m show ?case
  proof
    assume "mode v = None"
    with b e Cons.IH [OF rest] show ?thesis
      by (simp add: flat_entry_def)
  next
    assume "\<exists>ms. mode v = Some (Mode_list ms)"
    then obtain ms where "mode v = Some (Mode_list ms)" ..
    with b e Cons.IH [OF rest] show ?thesis
      by (simp add: flat_entry_def)
  qed
qed

lemma volume_entries_first_bad:
  assumes "\<not> entry_ok v"
  shows "volume_entries ((h, v) # rest) acc = Inl (volume_error h v)"
proof (cases "binddir v")
  case None
  then show ?thesis by (simp add: volume_error_def)
next
  case (Some b)
  with assms obtain s where "mode v = Some (Mode_scalar s)"
    by (cases "mode v") (auto simp: entry_ok_def split: mode_val.splits)
  with Some show ?thesis by (simp add: volume_error_def)
qed

lemma volume_entries_bad:
  assumes "list_all (\<lambda>e. entry_ok (snd e)) pre" and "\<not> entry_ok v"
  shows "volume_entries (pre @ (h, v) # rest) acc = Inl (volume_error h v)"
  using assms(1)
proof (induction pre arbitrary: acc)
  case Nil
  show ?case using assms(2) by (simp add: volume_entries_first_bad del: volume_entries.simps)
next
  case (Cons e pre)
  obtain h' v' where e: "e = (h', v')" by (cases e)
  from Cons.prems e have ok: "list_all (\<lambda>e. entry_ok (snd e)) [(h', v')]"
    and rest: "list_all (\<lambda>e. entry_ok (snd e)) pre"
    by simp_all
  from ok obtain b where b: "binddir v' = Some b"
    by (cases "binddir v'") (simp_all add: entry_ok_def)
  from ok b have m: "mode v' = None \<or> (\<exists>ms. mode v' = Some (Mode_list ms))"
    by (cases "mode v'") (auto simp: entry_ok_def split: mode_val.splits)
  from m show ?case
  proof
    assume "mode v' = None"
    with b e Cons.IH [OF rest] show ?thesis by simp
  next
    assume "\<exists>ms. mode v' = Some (Mode_list ms)"
    then obtain ms where "mode v' = Some (Mode_list ms)" ..
    with b e Cons.IH [OF rest] show ?thesis by simp
  qed
qed

lemma volume_params_bad:
  assumes "list_all (\<lambda>e. entry_ok (snd e)) pre" and "\<not> entry_ok v"
  shows "volume_params (Some (pre @ (h, v) # rest)) ps = Inl (volume_error h v)"
proof -
  obtain x xs where c: "pre @ (h, v) # rest = x # xs"
    by (cases pre) simp_all
  have "volume_entries (x # xs) [] = Inl (volume_error h v)"
    using volume_entries_bad [OF assms, of h rest "[]"] c by simp
  with c show ?thesis
    by (simp add: volume_params_def del: volume_entries.simps)
qed

lemma volume_params_ok:
  assumes "list_all (\<lambda>e. entry_ok (snd e)) (x # xs)"
  shows "volume_params (Some (x # xs)) ps
           = Inr (AList.update ''volume'' (PList (map flat_entry (x # xs))) ps)"
  using volume_entries_ok [OF assms, of "[]"]
  by (simp add: volume_params_def del: volume_entries.simps)

lemma build_stops_at_bad_volume:
  assumes "volumes a = Some (pre @ (h, v) # rest)"
      and "list_all (\<lambda>e. entry_ok (snd e)) pre" and "\<not> entry_ok v"
  shows "build env a =
           (Inl (case check_args a of Some e \<Rightarrow> e | None \<Rightarrow> volume_error h v), untouched)"
proof (cases "check_args a")
  case None
  have "build_params (default_dockerfile env) a = Inl (volume_error h v)"
    unfolding build_params_def assms(1) using assms(2,3) by (rule volume_params_bad)
  with None show ?thesis by (simp add: build_def send_request_def)
next
  case (Some e)
  then show ?thesis by (simp add: build_def send_request_def)
qed

lemma good_volumes_param:
  assumes "volumes a = Some (x # xs)" and "list_all (\<lambda>e. entry_ok (snd e)) (x # xs)"
  shows "\<exists>ps. build_params dd a = Inr ps \<and>
              map_of ps ''volume'' = Some (PList (map flat_entry (x # xs)))"
  unfolding build_params_def assms(1)
  by (simp add: volume_params_ok [OF assms(2)] update_conv')

lemma flat_entry_no_mode:
  "flat_entry (h, \<lparr>binddir = Some b, mode = Some (Mode_list [])\<rparr>) = h @ '':'' @ b @ '':''"
  "flat_entry (h, \<lparr>binddir = Some b, mode = None\<rparr>) = h @ '':'' @ b @ '':''"
  by (simp_all add: flat_entry_def)

lemma host_volumes_ok: "list_all (\<lambda>e. entry_ok (snd e)) host_volumes"
  by (simp add: host_volumes_def entry_ok_def)

lemma host_volumes_flat:
  "map flat_entry host_volumes = [''/etc/host:/etc/host:'', ''/tmp/cache:/var/cache/libdnf5:rw,z'']"
  by (simp add: host_volumes_def flat_entry_def)

subsection \<open>The requests of the sample calls, and which parameters a request carries\<close>

lemma loose_file_request':
  "send_request (answering ls) loose_file_call =
     (Inr \<lparr>status_error = None, iter_lines = ls\<rparr>, loose_file_sent)"
  by (simp add: loose_file_request loose_file_sent_def)

lemma response_world:
  assumes "send_request env a = (Inr resp, w)"
  shows "w\<lparr>lookups := []\<rparr> = w"
  using send_request_response [OF assms] by auto

lemma array_line_passes: "scan_line (JArr []) i = Carry_on i"
  by (simp add: scan_line_def)

lemma build_requests: "requests (snd (build env a)) = requests (snd (send_request env a))"
  by (cases "send_request env a") (auto simp: build_def split: sum.splits prod.splits)

lemma send_request_issued:
  assumes "requests (snd (send_request env a)) = [(ps, b, t)]"
  shows "\<exists>ps0 tmp. build_params (default_dockerfile env) a = Inr ps0 \<and>
                    make_context env a ps0 = (Inr (b, ps), tmp)"
  using assms
  by (auto simp: send_request_def submit_def untouched_def Let_def
           split: option.splits sum.splits prod.splits)

lemma make_context_other_keys:
  assumes "make_context env a ps0 = (Inr (b, ps), tmp)" and "k \<noteq> ''dockerfile''"
  shows "map_of ps k = map_of ps0 k"
  using assms
  by (auto simp: make_context_def Let_def update_conv'
           split: if_splits option.splits sum.splits pathval.splits list.splits)

lemma make_context_dockerfile:
  assumes "make_context env a ps0 = (Inr (b, ps), tmp)"
      and "map_of ps0 ''dockerfile'' = Some (of_str (arg_or (dockerfile a) (Some (default_dockerfile env))))"
  shows "map_of ps ''dockerfile'' =
       Some (case b of
               Some (Tar_dir p ex gz) \<Rightarrow>
                 (case arg_or (dockerfile a) (Some (default_dockerfile env)) of
                    Some d \<Rightarrow> PStr (prepare_containerfile env p (joinpath env p d))
                  | None \<Rightarrow> PNone)
             | _ \<Rightarrow> of_str (arg_or (dockerfile a) (Some (default_dockerfile env))))"
  using assms
  by (auto simp: make_context_def Let_def update_conv'
           split: if_splits option.splits sum.splits pathval.splits list.splits)

lemma dir_call_steps:
  "check_args dir_call = None"
  "make_context sample_env dir_call dir_params =
     (Inr (Some (Tar_dir ''ctx'' [] False), dir_sent_params), False)"
  "post_timeout dir_call = Inr None"
proof -
  show "check_args dir_call = None"
    by (simp add: check_args_def dir_call_def bare_call_def)
  show "make_context sample_env dir_call dir_params =
     (Inr (Some (Tar_dir ''ctx'' [] False), dir_sent_params), False)"
    by (simp add: make_context_def dir_call_def bare_call_def arg_or_def truthy_bool_def
          truthy_path_def gzip_flag_def sample_env_fields)
       (simp add: dir_params_def dir_sent_params_def)
  show "post_timeout dir_call = Inr None"
    by (simp add: post_timeout_def dir_call_def bare_call_def)
qed

lemma dir_call_requests:
  "requests (snd (build sample_env dir_call)) =
     [(dir_sent_params, Some (Tar_dir ''ctx'' [] False), None)]"
proof -
  have "build_params (default_dockerfile sample_env) dir_call = Inr dir_params"
    by (simp add: sample_env_fields dir_call_params)
  from send_request_steps [OF dir_call_steps(1) this dir_call_steps(2) dir_call_steps(3)]
  show ?thesis
    by (simp add: build_requests sample_env_fields)
qed

subsection \<open>Choosing the context\<close>















subsection \<open>Claims\<close>

text \<open>
  Claim C8. A call that sets no context source (no directory path, no file object and no
  remote URI) raises the TypeError of line 143, and nothing has happened outside: no request
  was issued, no image looked up, no stream or staging directory created.
\<close>

theorem no_context_source_rejected:
  assumes "path a = None" and "fileobj a = None" and "remote a = None"
  shows "build env a =
           (Inl (TypeError ''Either path, fileobj or remote must be provided.''), untouched)"
  using assms by (simp add: build_def send_request_def check_args_def)

theorem no_context_source_rejected_witness:
  "path bare_call = None \<and> fileobj bare_call = None \<and> remote bare_call = None \<and>
   build sample_env bare_call =
     (Inl (TypeError ''Either path, fileobj or remote must be provided.''), untouched)"
  using no_context_source_rejected [of bare_call sample_env] by (simp add: bare_call_def)

text \<open>
  Claim C2. Let the request of a build have returned a response (the POST returned and
  \<^verbatim>\<open>raise_for_status\<close> did not raise), let the lines of the response before \<open>l\<close> be well-formed
  events without an \<^verbatim>\<open>error\<close> field, and let \<open>l\<close> decode to an object whose \<^verbatim>\<open>error\<close> field is
  \<open>m\<close>. Then the build raises a BuildError carrying \<open>m\<close> at that line: the lines after it are
  still in the source of the tee, not read, and the world is as the request left it (nothing
  looked up). The replay view attached to the error, when drained, yields the whole stream in
  order, the lines after the error line included.
\<close>

theorem error_event_raises_build_error:
  assumes "send_request env a = (Inr resp, w)"
      and "iter_lines resp = pre @ l # after"
      and "list_all (plain_event (loads env)) pre"
      and "loads env l = Inr (JObj kvs)" and "map_of kvs ''error'' = Some m"
  shows "build env a =
           (Inl (BuildError (Msg_json m)
                   \<lparr>source = after, report_buf = pre @ [l], stream_buf = []\<rparr>), w) \<and>
         source \<lparr>source = after, report_buf = pre @ [l], stream_buf = []\<rparr> = after \<and>
         drain_report \<lparr>source = after, report_buf = pre @ [l], stream_buf = []\<rparr>
           = pre @ l # after"
proof -
  have "scan (loads env) (tee_of (pre @ l # after)) None None =
          Inl (BuildError (Msg_json m) \<lparr>source = after, report_buf = pre @ [l], stream_buf = []\<rparr>)"
    using scan_plain_prefix [OF assms(3), of "l # after" "[]" None None]
          scan_error_line [of "loads env" l kvs m after pre]
          assms(4,5)
    by (simp add: tee_of_def)
  then have "build_outcome (loads env) (images_get env) (iter_lines resp) =
          (Inl (BuildError (Msg_json m)
                  \<lparr>source = after, report_buf = pre @ [l], stream_buf = []\<rparr>), [])"
    by (simp add: build_outcome_def assms(2))
  with build_after_response [OF assms(1)] response_world [OF assms(1)]
  show ?thesis
    by (simp add: drain_report_all)
qed

theorem error_event_raises_build_error_witness:
  "send_request (answering [line_step, line_error, line_id]) loose_file_call =
     (Inr \<lparr>status_error = None, iter_lines = [line_step, line_error, line_id]\<rparr>, loose_file_sent) \<and>
   list_all (plain_event sample_loads) [line_step] \<and>
   sample_loads line_error = Inr (JObj [(''error'', JStr ''no such file'')]) \<and>
   build (answering [line_step, line_error, line_id]) loose_file_call =
     (Inl (BuildError (Msg_json (JStr ''no such file''))
            \<lparr>source = [line_id], report_buf = [line_step, line_error], stream_buf = []\<rparr>),
      loose_file_sent) \<and>
   drain_report \<lparr>source = [line_id], report_buf = [line_step, line_error], stream_buf = []\<rparr>
     = [line_step, line_error, line_id]"
  using error_event_raises_build_error
          [of "answering [line_step, line_error, line_id]" loose_file_call
              "\<lparr>status_error = None, iter_lines = [line_step, line_error, line_id]\<rparr>"
              loose_file_sent "[line_step]" line_error "[line_id]"
              "[(''error'', JStr ''no such file'')]" "JStr ''no such file''"]
  by (simp add: loose_file_request' plain_samples sample_loads_simps answering_fields)

text \<open>
  Claim C10, as stated, fails: the claim has every line that is not a valid JSON object end the
  build with a JSON decoding error. A line that is valid JSON without being an object is
  decoded, and lines 257 to 262 then work on the value: for the line \<^verbatim>\<open>[]\<close> both membership
  tests are false and the scan goes on, so that a build whose stream is that line followed by
  a marker line succeeds.
\<close>

theorem non_object_line_is_passed_over_counterexample:
  "sample_loads line_array = Inr (JArr []) \<and>
   build (answering [line_array, line_id]) loose_file_call =
     (Inr (''deadbeef12'', \<lparr>source = [], report_buf = [line_array, line_id], stream_buf = []\<rparr>),
      loose_file_sent\<lparr>lookups := [''deadbeef12'']\<rparr>)"
proof -
  have "scan sample_loads \<lparr>source = [line_id], report_buf = [line_array], stream_buf = []\<rparr>
          None (Some line_array) =
        Inr (Some ''deadbeef12'', Some line_id,
             \<lparr>source = [], report_buf = [line_array, line_id], stream_buf = []\<rparr>)"
    using scan_plain_prefix [of sample_loads "[line_id]" "[]" "[line_array]" None "Some line_array"]
    by (simp add: scan_empty plain_samples marker_of_samples)
  then have "scan sample_loads (tee_of [line_array, line_id]) None None =
        Inr (Some ''deadbeef12'', Some line_id,
             \<lparr>source = [], report_buf = [line_array, line_id], stream_buf = []\<rparr>)"
    by (simp add: tee_of_def scan_cons sample_loads_simps array_line_passes)
  then have "build_outcome sample_loads Inr [line_array, line_id] =
      (Inr (''deadbeef12'', \<lparr>source = [], report_buf = [line_array, line_id], stream_buf = []\<rparr>),
       [''deadbeef12''])"
    by (simp add: build_outcome_def)
  with build_after_response [OF loose_file_request' [of "[line_array, line_id]"]]
  show ?thesis
    by (simp add: answering_fields sample_loads_simps)
qed

text \<open>
  Claim C10, amended. Let the request have returned a response. A line that is not valid JSON
  (\<^verbatim>\<open>json.loads\<close> raises JSONDecodeError on it), reached after well-formed events without an
  \<^verbatim>\<open>error\<close> field, ends the build with that JSONDecodeError. It is not a BuildError and carries
  no replay view; the world is as the request left it.
\<close>

theorem undecodable_line_raises_decode_error:
  assumes "send_request env a = (Inr resp, w)"
      and "iter_lines resp = pre @ l # after"
      and "list_all (plain_event (loads env)) pre"
      and "loads env l = Inl JSONDecodeError"
  shows "build env a = (Inl JSONDecodeError, w)"
proof -
  have "scan (loads env) (tee_of (pre @ l # after)) None None = Inl JSONDecodeError"
    using scan_plain_prefix [OF assms(3), of "l # after" "[]" None None]
          scan_bad_line [of "loads env" l JSONDecodeError after pre]
          assms(4)
    by (simp add: tee_of_def)
  then have "build_outcome (loads env) (images_get env) (iter_lines resp)
               = (Inl JSONDecodeError, [])"
    by (simp add: build_outcome_def assms(2))
  with build_after_response [OF assms(1)] response_world [OF assms(1)]
  show ?thesis by simp
qed

theorem undecodable_line_raises_decode_error_witness:
  "send_request (answering [line_step, line_garbage, line_id]) loose_file_call =
     (Inr \<lparr>status_error = None, iter_lines = [line_step, line_garbage, line_id]\<rparr>,
      loose_file_sent) \<and>
   list_all (plain_event sample_loads) [line_step] \<and>
   sample_loads line_garbage = Inl JSONDecodeError \<and>
   build (answering [line_step, line_garbage, line_id]) loose_file_call
     = (Inl JSONDecodeError, loose_file_sent)"
  using undecodable_line_raises_decode_error
          [of "answering [line_step, line_garbage, line_id]" loose_file_call
              "\<lparr>status_error = None, iter_lines = [line_step, line_garbage, line_id]\<rparr>"
              loose_file_sent "[line_step]" line_garbage "[line_id]"]
  by (simp add: loose_file_request' plain_samples sample_loads_simps answering_fields)

text \<open>
  Claim C6. Let the request have returned a response whose lines are well-formed events with
  no \<^verbatim>\<open>error\<close> field and no success marker. Then the build raises a BuildError: its message is
  the last line (as bytes), or the text \<^verbatim>\<open>Unknown\<close> when there was no line, and the replay view
  attached yields every line (none for the empty stream). No image is looked up.
  \<^verbatim>\<open>json.loads\<close> rejects the empty line, so a decoded line is never empty.
\<close>

theorem no_marker_is_failure:
  assumes "send_request env a = (Inr resp, w)"
      and "iter_lines resp = lines"
      and "list_all (plain_event (loads env)) lines"
      and "list_all (\<lambda>l. marker_of (loads env) l = None) lines"
      and "loads env [] = Inl JSONDecodeError"
  shows "build env a =
           (Inl (BuildError (if lines = [] then Msg_str ''Unknown'' else Msg_bytes (last lines))
                   \<lparr>source = [], report_buf = lines, stream_buf = []\<rparr>), w) \<and>
         drain_report \<lparr>source = [], report_buf = lines, stream_buf = []\<rparr> = lines"
proof -
  have sc: "scan (loads env) (tee_of lines) None None =
          Inr (None, if lines = [] then None else Some (last lines),
               \<lparr>source = [], report_buf = lines, stream_buf = []\<rparr>)"
    using scan_plain_prefix [OF assms(3), of "[]" "[]" None None]
          last_marker_none [OF assms(4), of None]
    by (simp add: tee_of_def scan_empty)
  have ne: "lines \<noteq> [] \<Longrightarrow> last lines \<noteq> []"
  proof -
    assume "lines \<noteq> []"
    then have "last lines \<in> set lines" by simp
    with assms(3) have "plain_event (loads env) (last lines)" by (simp add: list_all_iff)
    then show ?thesis using assms(5) by (rule plain_event_nonempty)
  qed
  have "build_outcome (loads env) (images_get env) (iter_lines resp) =
          (Inl (BuildError (if lines = [] then Msg_str ''Unknown'' else Msg_bytes (last lines))
                   \<lparr>source = [], report_buf = lines, stream_buf = []\<rparr>), [])"
    using sc ne by (simp add: build_outcome_def no_marker_def assms(2))
  with build_after_response [OF assms(1)] response_world [OF assms(1)]
  show ?thesis
    by (simp add: drain_report_all)
qed

theorem no_marker_is_failure_witness:
  "send_request (answering [line_step, line_status]) loose_file_call =
     (Inr \<lparr>status_error = None, iter_lines = [line_step, line_status]\<rparr>, loose_file_sent) \<and>
   list_all (plain_event sample_loads) [line_step, line_status] \<and>
   list_all (\<lambda>l. marker_of sample_loads l = None) [line_step, line_status] \<and>
   sample_loads [] = Inl JSONDecodeError \<and>
   build (answering [line_step, line_status]) loose_file_call =
     (Inl (BuildError (Msg_bytes line_status)
            \<lparr>source = [], report_buf = [line_step, line_status], stream_buf = []\<rparr>),
      loose_file_sent) \<and>
   send_request (answering []) loose_file_call =
     (Inr \<lparr>status_error = None, iter_lines = []\<rparr>, loose_file_sent) \<and>
   build (answering []) loose_file_call =
     (Inl (BuildError (Msg_str ''Unknown'') \<lparr>source = [], report_buf = [], stream_buf = []\<rparr>),
      loose_file_sent) \<and>
   drain_report \<lparr>source = [], report_buf = [], stream_buf = []\<rparr> = ([] :: string list)"
  using no_marker_is_failure
          [of "answering [line_step, line_status]" loose_file_call
              "\<lparr>status_error = None, iter_lines = [line_step, line_status]\<rparr>"
              loose_file_sent "[line_step, line_status]"]
        no_marker_is_failure
          [of "answering []" loose_file_call
              "\<lparr>status_error = None, iter_lines = []\<rparr>" loose_file_sent "[]"]
  by (simp add: loose_file_request' plain_samples marker_of_samples sample_loads_simps
        answering_fields)

text \<open>
  Claim C1. The claim takes the marker to accept exactly a run of lowercase hex digits followed
  by a single newline. The pattern of line 253 ends in a newline and \<^verbatim>\<open>$\<close>, and Python's \<^verbatim>\<open>$\<close> also
  holds just before a newline that ends the string: the text \<^verbatim>\<open>ab\<close> followed by two newlines
  matches, and a build whose stream is that one line looks \<^verbatim>\<open>ab\<close> up as the image identifier
  and returns.
\<close>

theorem marker_matches_two_trailing_newlines:
  "marker_match ''ab\<newline>\<newline>'' = Some ''ab'' \<and>
   build_outcome sample_loads Inr [line_two_newlines] =
     (Inr (''ab'', \<lparr>source = [], report_buf = [line_two_newlines], stream_buf = []\<rparr>), [''ab'']) \<and>
   build (answering [line_two_newlines]) loose_file_call =
     (Inr (''ab'', \<lparr>source = [], report_buf = [line_two_newlines], stream_buf = []\<rparr>),
      loose_file_sent\<lparr>lookups := [''ab'']\<rparr>)"
proof -
  have "scan sample_loads (tee_of [line_two_newlines]) None None =
          Inr (Some ''ab'', Some line_two_newlines,
               \<lparr>source = [], report_buf = [line_two_newlines], stream_buf = []\<rparr>)"
    using scan_plain_prefix [of sample_loads "[line_two_newlines]" "[]" "[]" None None]
    by (simp add: tee_of_def scan_empty plain_samples marker_of_samples)
  then have o: "build_outcome sample_loads Inr [line_two_newlines] =
     (Inr (''ab'', \<lparr>source = [], report_buf = [line_two_newlines], stream_buf = []\<rparr>), [''ab''])"
    by (simp add: build_outcome_def)
  with build_after_response [OF loose_file_request' [of "[line_two_newlines]"]]
  show ?thesis
    by (simp add: answering_fields marker_examples)
qed

text \<open>
  Claim C3. The claim asks for the body to be closed and the staging directory to be removed on
  every exit path. Lines 244 to 248 do both after the POST has returned; when the POST itself
  raises, they are not reached: for a build from a loose build file against a daemon that
  cannot be reached, the call ends with the transport error while the archive stream is still
  open and the staging directory still exists.
\<close>

theorem transport_error_skips_cleanup:
  "build offline_env loose_file_call =
     (Inl (Foreign ''ConnectionError''),
      \<lparr>requests = [(initial_params ''.containerfile.1f'' loose_file_call,
                     Some (Tar_tempdir ''.containerfile.1f'' ''FROM scratch'' False), None)],
       lookups = [], body_open = True, tempdir_exists = True\<rparr>)"
proof -
  have "send_request offline_env loose_file_call =
     (Inl (Foreign ''ConnectionError''),
      \<lparr>requests = [(initial_params ''.containerfile.1f'' loose_file_call,
                     Some (Tar_tempdir ''.containerfile.1f'' ''FROM scratch'' False), None)],
       lookups = [], body_open = True, tempdir_exists = True\<rparr>)"
    by (simp add: send_request_steps [OF loose_file_call_steps(1) loose_file_call_steps(2)
                    loose_file_call_steps(3) loose_file_call_steps(4)] offline_env_fields)
  then show ?thesis by (rule build_without_response)
qed

text \<open>
  Claim C4. The claim asks for a configuration error when a custom context comes without a
  build-file name. The check of line 203 is \<^verbatim>\<open>dockerfile is None\<close>, but a caller who leaves the
  name out gets the default of line 39, a random name, not \<^verbatim>\<open>None\<close>: the request is issued with
  that name as \<^verbatim>\<open>dockerfile\<close> parameter and the build goes on.
\<close>

theorem custom_context_default_dockerfile_is_sent:
  "build sample_env custom_call =
     (Inr (''deadbeef12'', \<lparr>source = [], report_buf = [line_step, line_id], stream_buf = []\<rparr>),
      \<lparr>requests = [(initial_params ''.containerfile.1f'' custom_call,
                     Some (BytesIO ''tarball''), None)],
       lookups = [''deadbeef12''], body_open = False, tempdir_exists = False\<rparr>) \<and>
   map_of (initial_params ''.containerfile.1f'' custom_call) ''dockerfile''
     = Some (PStr ''.containerfile.1f'')"
proof -
  have d: "map_of (initial_params ''.containerfile.1f'' custom_call) ''dockerfile''
             = Some (PStr ''.containerfile.1f'')"
    by (simp add: initial_params_def custom_call_def bare_call_def arg_or_def of_str_def)
  have c: "check_args custom_call = None"
    by (simp add: check_args_def custom_call_def bare_call_def)
  have p: "build_params (default_dockerfile sample_env) custom_call
             = Inr (initial_params ''.containerfile.1f'' custom_call)"
    unfolding sample_env_fields
    by (rule build_params_plain) (simp_all add: custom_call_def bare_call_def)
  have m: "make_context sample_env custom_call (initial_params ''.containerfile.1f'' custom_call) =
             (Inr (Some (BytesIO ''tarball''), initial_params ''.containerfile.1f'' custom_call),
              False)"
    by (simp add: make_context_def custom_call_def bare_call_def sample_env_fields arg_or_def
          truthy_bool_def getbuffer_def)
  have t: "post_timeout custom_call = Inr None"
    by (simp add: post_timeout_def custom_call_def bare_call_def)
  have "send_request sample_env custom_call =
     (Inr \<lparr>status_error = None, iter_lines = [line_step, line_id]\<rparr>,
      \<lparr>requests = [(initial_params ''.containerfile.1f'' custom_call,
                     Some (BytesIO ''tarball''), None)],
       lookups = [], body_open = False, tempdir_exists = False\<rparr>)"
    by (simp add: send_request_steps [OF c p m t] sample_env_fields)
  from build_after_response [OF this] d show ?thesis
    by (simp add: sample_env_fields sample_outcome)
qed

text \<open>
  Claim C5, as stated, fails: the claim has every unset field left out of the marshalled
  mapping. The dictionary of lines 148 to 166 holds every scalar option under its name, unset
  ones with the value \<^verbatim>\<open>None\<close>, and lines 174 to 179 write all six limit parameters with
  \<^verbatim>\<open>container_limits.get\<close>, which is \<^verbatim>\<open>None\<close> for an absent field. For a build from a directory
  with only a memory limit, \<^verbatim>\<open>t\<close> and \<^verbatim>\<open>cpuperiod\<close> are in the mapping with the value \<^verbatim>\<open>None\<close>,
  as built and as handed to the POST.
\<close>

theorem unset_options_sent_as_null_counterexample:
  "build_params ''.containerfile.1f'' dir_call = Inr dir_params \<and>
   map_of dir_params ''t'' = Some PNone \<and>
   map_of dir_params ''cpuperiod'' = Some PNone \<and>
   requests (snd (build sample_env dir_call)) =
     [(dir_sent_params, Some (Tar_dir ''ctx'' [] False), None)] \<and>
   map_of dir_sent_params ''t'' = Some PNone \<and>
   map_of dir_sent_params ''cpuperiod'' = Some PNone"
  by (simp add: dir_call_params dir_call_requests) (simp add: dir_params_def dir_sent_params_def)

text \<open>
  Claim C5, amended. Whenever the build issues its request, the mapping handed to the POST
  holds each of the seventeen scalar parameters, with the null value when the option is unset
  (and the defaults of the signature for \<^verbatim>\<open>layers\<close> and the output format when those are left
  out). The build-file parameter is the name given (or the default of the signature), except
  for a build from a directory, where it is the name resolved by \<^verbatim>\<open>prepare_containerfile\<close>.
  Each JSON-encoded collection (\<^verbatim>\<open>buildargs\<close>, \<^verbatim>\<open>cachefrom\<close>, \<^verbatim>\<open>extrahosts\<close>, \<^verbatim>\<open>labels\<close>) is present
  exactly when the caller gave a non-empty one. With limits given and not empty, all six limit
  parameters are present, a field absent from the limits with the null value; otherwise none
  of the six is present.
\<close>

theorem params_hold_null_for_unset:
  assumes "requests (snd (build env a)) = [(ps, b, t)]"
  shows
    "map_of ps ''dockerfile'' =
       Some (case b of
               Some (Tar_dir p ex gz) \<Rightarrow>
                 (case arg_or (dockerfile a) (Some (default_dockerfile env)) of
                    Some d \<Rightarrow> PStr (prepare_containerfile env p (joinpath env p d))
                  | None \<Rightarrow> PNone)
             | _ \<Rightarrow> of_str (arg_or (dockerfile a) (Some (default_dockerfile env)))) \<and>
     map_of ps ''forcerm'' = Some (of_bool (forcerm a)) \<and>
     map_of ps ''httpproxy'' = Some (of_bool (http_proxy a)) \<and>
     map_of ps ''networkmode'' = Some (of_str (network_mode a)) \<and>
     map_of ps ''nocache'' = Some (of_bool (nocache a)) \<and>
     map_of ps ''platform'' = Some (of_str (platform a)) \<and>
     map_of ps ''pull'' = Some (of_bool (pull a)) \<and>
     map_of ps ''q'' = Some (of_bool (quiet a)) \<and>
     map_of ps ''remote'' = Some (of_str (remote a)) \<and>
     map_of ps ''rm'' = Some (of_bool (rm a)) \<and>
     map_of ps ''shmsize'' = Some (of_int (shmsize a)) \<and>
     map_of ps ''squash'' = Some (of_bool (squash a)) \<and>
     map_of ps ''t'' = Some (of_str (tag a)) \<and>
     map_of ps ''target'' = Some (of_str (target a)) \<and>
     map_of ps ''layers'' = Some (of_bool (arg_or (layers a) (Some True))) \<and>
     map_of ps ''output'' = Some (of_str (output' a)) \<and>
     map_of ps ''outputformat'' = Some (of_str (arg_or (outputformat a) (Some outputformat_default))) \<and>
     map_of ps ''buildargs'' =
       (case buildargs a of
          Some (x # xs) \<Rightarrow> Some (PDumps (JObj (map (\<lambda>(n, v). (n, JStr v)) (x # xs))))
        | _ \<Rightarrow> None) \<and>
     map_of ps ''cachefrom'' =
       (case cache_from a of
          Some (x # xs) \<Rightarrow> Some (PDumps (JArr (map JStr (x # xs))))
        | _ \<Rightarrow> None) \<and>
     map_of ps ''extrahosts'' =
       (case extra_hosts a of
          Some (x # xs) \<Rightarrow> Some (PDumps (JObj (map (\<lambda>(n, v). (n, JStr v)) (x # xs))))
        | _ \<Rightarrow> None) \<and>
     map_of ps ''labels'' =
       (case labels a of
          Some (x # xs) \<Rightarrow> Some (PDumps (JObj (map (\<lambda>(n, v). (n, JStr v)) (x # xs))))
        | _ \<Rightarrow> None) \<and>
     map_of ps ''cpuperiod'' =
       (case container_limits a of Some (x # xs) \<Rightarrow> Some (limit (x # xs) ''cpuperiod'') | _ \<Rightarrow> None) \<and>
     map_of ps ''cpuquota'' =
       (case container_limits a of Some (x # xs) \<Rightarrow> Some (limit (x # xs) ''cpuquota'') | _ \<Rightarrow> None) \<and>
     map_of ps ''cpusetcpus'' =
       (case container_limits a of Some (x # xs) \<Rightarrow> Some (limit (x # xs) ''cpusetcpus'') | _ \<Rightarrow> None) \<and>
     map_of ps ''cpushares'' =
       (case container_limits a of Some (x # xs) \<Rightarrow> Some (limit (x # xs) ''cpushares'') | _ \<Rightarrow> None) \<and>
     map_of ps ''memory'' =
       (case container_limits a of Some (x # xs) \<Rightarrow> Some (limit (x # xs) ''memory'') | _ \<Rightarrow> None) \<and>
     map_of ps ''memswap'' =
       (case container_limits a of Some (x # xs) \<Rightarrow> Some (limit (x # xs) ''memswap'') | _ \<Rightarrow> None)"
proof -
  from assms have "requests (snd (send_request env a)) = [(ps, b, t)]"
    by (simp add: build_requests)
  from send_request_issued [OF this] obtain ps0 tmp where
    p: "build_params (default_dockerfile env) a = Inr ps0"
    and m: "make_context env a ps0 = (Inr (b, ps), tmp)"
    by blast
  note s = scalar_params [OF p] and c = collection_params [OF p] and l = limit_key_params [OF p]
  note o = make_context_other_keys [OF m]
  have d: "map_of ps ''dockerfile'' =
       Some (case b of
               Some (Tar_dir p ex gz) \<Rightarrow>
                 (case arg_or (dockerfile a) (Some (default_dockerfile env)) of
                    Some d \<Rightarrow> PStr (prepare_containerfile env p (joinpath env p d))
                  | None \<Rightarrow> PNone)
             | _ \<Rightarrow> of_str (arg_or (dockerfile a) (Some (default_dockerfile env))))"
    using m s(1) by (rule make_context_dockerfile)
  show ?thesis
    by (intro conjI, rule d) (simp_all add: o s c l)
qed

theorem params_hold_null_for_unset_witness:
  "requests (snd (build sample_env dir_call)) =
     [(dir_sent_params, Some (Tar_dir ''ctx'' [] False), None)] \<and>
   map_of dir_sent_params ''dockerfile'' = Some (PStr ''ctx/.containerfile.1f'') \<and>
   map_of dir_sent_params ''t'' = Some PNone \<and>
   map_of dir_sent_params ''buildargs'' = None \<and>
   map_of dir_sent_params ''cpuperiod'' = Some PNone \<and>
   map_of dir_sent_params ''memory'' = Some (PInt 1024)"
  using params_hold_null_for_unset
          [of sample_env dir_call dir_sent_params "Some (Tar_dir ''ctx'' [] False)" None]
  by (simp add: dir_call_requests) (simp add: dir_sent_params_def)

text \<open>
  Claim C7. When the first malformed entry of \<^verbatim>\<open>volumes\<close> is \<open>(h, v)\<close>, the build raises before
  anything happens outside: the error of the two argument checks of lines 142 to 146 if one of
  them fires, otherwise the ValueError that names \<open>h\<close>, about the bind path when \<open>v\<close> has none
  and about the mode otherwise. When all entries of a non-empty \<^verbatim>\<open>volumes\<close> are well-formed,
  the parameter \<^verbatim>\<open>volume\<close> is the list of their flattened forms, in order. An empty mode list
  leaves an empty last segment.
\<close>

theorem volumes_validated_then_flattened:
  "(volumes a = Some (pre @ (h, v) # rest) \<and> list_all (\<lambda>e. entry_ok (snd e)) pre \<and>
      \<not> entry_ok v \<longrightarrow>
      build env a =
        (Inl (case check_args a of Some e \<Rightarrow> e | None \<Rightarrow> volume_error h v), untouched)) \<and>
   (volumes a' = Some (x # xs) \<and> list_all (\<lambda>e. entry_ok (snd e)) (x # xs) \<longrightarrow>
      (\<exists>ps. build_params dd a' = Inr ps \<and>
            map_of ps ''volume'' = Some (PList (map flat_entry (x # xs))))) \<and>
   flat_entry (h', \<lparr>binddir = Some b, mode = Some (Mode_list [])\<rparr>) = h' @ '':'' @ b @ '':''"
  using build_stops_at_bad_volume [of a pre h v rest env] good_volumes_param [of a' x xs dd]
  by (simp add: flat_entry_no_mode)

theorem volumes_validated_then_flattened_witness:
  "volumes bad_volumes_call = Some (host_volumes @ unbound_volume # [scalar_mode_volume]) \<and>
   list_all (\<lambda>e. entry_ok (snd e)) host_volumes \<and>
   \<not> entry_ok (snd unbound_volume) \<and>
   build sample_env bad_volumes_call =
     (Inl (ValueError ''volume /data 'bind' value not defined''), untouched) \<and>
   volumes volumes_call = Some host_volumes \<and>
   (\<exists>ps. build_params ''.containerfile.1f'' volumes_call = Inr ps \<and>
         map_of ps ''volume'' =
           Some (PList [''/etc/host:/etc/host:'', ''/tmp/cache:/var/cache/libdnf5:rw,z'']))"
proof -
  have v: "volumes bad_volumes_call = Some (host_volumes @ unbound_volume # [scalar_mode_volume])"
    by (simp add: bad_volumes_call_def bare_call_def)
  have n: "\<not> entry_ok (snd unbound_volume)"
    by (simp add: unbound_volume_def entry_ok_def)
  have c: "check_args bad_volumes_call = None"
    by (simp add: check_args_def bad_volumes_call_def bare_call_def)
  have e: "volume_error ''/data'' (snd unbound_volume)
             = ValueError ''volume /data 'bind' value not defined''"
    by (simp add: volume_error_def unbound_volume_def)
  have g: "volumes volumes_call = Some host_volumes"
    by (simp add: volumes_call_def bare_call_def)
  have hv: "host_volumes = hd host_volumes # tl host_volumes"
    by (simp add: host_volumes_def)
  from volumes_validated_then_flattened
         [of bad_volumes_call host_volumes "''/data''" "snd unbound_volume" "[scalar_mode_volume]"
             sample_env volumes_call "hd host_volumes" "tl host_volumes" "''.containerfile.1f''"]
  show ?thesis
    using v n c e g hv host_volumes_ok host_volumes_flat
    by (simp add: unbound_volume_def)
qed




end
